theory Spec2Isabelle
  imports Complex_Main
begin

section \<open>JavaScript numbers\<close>

text \<open>
  The scripts compute with JavaScript numbers. A number is modelled by its exact value:
  a rational, one of the two infinities, or NaN. Rounding of the binary representation and
  the sign of zero are not modelled; what is modelled is where a division produces NaN or
  an infinity and that every comparison with NaN is false.
\<close>

datatype jsnum = Fin rat | PosInf | NegInf | NaN

fun is_finite :: "jsnum \<Rightarrow> bool" where
  "is_finite (Fin _) = True"
| "is_finite _ = False"

fun js_lt :: "jsnum \<Rightarrow> jsnum \<Rightarrow> bool" where
  "js_lt NaN _ = False"
| "js_lt _ NaN = False"
| "js_lt (Fin a) (Fin b) = (a < b)"
| "js_lt (Fin _) PosInf = True"
| "js_lt (Fin _) NegInf = False"
| "js_lt PosInf _ = False"
| "js_lt NegInf NegInf = False"
| "js_lt NegInf _ = True"

definition js_gt :: "jsnum \<Rightarrow> jsnum \<Rightarrow> bool" where
  "js_gt a b = js_lt b a"

fun js_le :: "jsnum \<Rightarrow> jsnum \<Rightarrow> bool" where
  "js_le NaN _ = False"
| "js_le _ NaN = False"
| "js_le a b = (\<not> js_lt b a)"

definition js_ge :: "jsnum \<Rightarrow> jsnum \<Rightarrow> bool" where
  "js_ge a b = js_le b a"

fun js_neg :: "jsnum \<Rightarrow> jsnum" where
  "js_neg (Fin a) = Fin (- a)"
| "js_neg PosInf = NegInf"
| "js_neg NegInf = PosInf"
| "js_neg NaN = NaN"

fun js_add :: "jsnum \<Rightarrow> jsnum \<Rightarrow> jsnum" where
  "js_add NaN _ = NaN"
| "js_add _ NaN = NaN"
| "js_add (Fin a) (Fin b) = Fin (a + b)"
| "js_add PosInf NegInf = NaN"
| "js_add NegInf PosInf = NaN"
| "js_add PosInf _ = PosInf"
| "js_add _ PosInf = PosInf"
| "js_add NegInf _ = NegInf"
| "js_add _ NegInf = NegInf"

definition js_sub :: "jsnum \<Rightarrow> jsnum \<Rightarrow> jsnum" where
  "js_sub a b = js_add a (js_neg b)"

text \<open>The sign of a non-NaN number: \<open>-1\<close>, \<open>0\<close> or \<open>1\<close>.\<close>

fun js_sign :: "jsnum \<Rightarrow> int" where
  "js_sign (Fin a) = (if a < 0 then - 1 else if a = 0 then 0 else 1)"
| "js_sign PosInf = 1"
| "js_sign NegInf = - 1"
| "js_sign NaN = 0"

definition signed_inf :: "int \<Rightarrow> jsnum" where
  "signed_inf s = (if s = 0 then NaN else if s < 0 then NegInf else PosInf)"

fun js_mul :: "jsnum \<Rightarrow> jsnum \<Rightarrow> jsnum" where
  "js_mul NaN _ = NaN"
| "js_mul _ NaN = NaN"
| "js_mul (Fin a) (Fin b) = Fin (a * b)"
| "js_mul a b = signed_inf (js_sign a * js_sign b)"

text \<open>
  Division: a finite number divided by zero is an infinity (NaN for \<open>0 / 0\<close>), a finite
  number divided by an infinity is zero, an infinity divided by an infinity is NaN.
\<close>

fun js_div :: "jsnum \<Rightarrow> jsnum \<Rightarrow> jsnum" where
  "js_div NaN _ = NaN"
| "js_div _ NaN = NaN"
| "js_div (Fin a) (Fin b) = (if b = 0 then signed_inf (js_sign (Fin a)) else Fin (a / b))"
| "js_div (Fin _) _ = Fin 0"
| "js_div a (Fin b) = signed_inf (js_sign a * (if b < 0 then - 1 else 1))"
| "js_div _ _ = NaN"

text \<open>Truthiness of a number (\<open>!x\<close>, \<open>x || d\<close>): zero and NaN are falsy.\<close>

fun js_truthy :: "jsnum \<Rightarrow> bool" where
  "js_truthy (Fin a) = (a \<noteq> 0)"
| "js_truthy NaN = False"
| "js_truthy _ = True"

text \<open>A transaction count, as a number.\<close>

definition num :: "nat \<Rightarrow> jsnum" where
  "num n = Fin (of_nat n)"

section \<open>Strings and messages\<close>

text \<open>
  Strings are byte strings. \<open>toLowerCase\<close> is modelled on the ASCII letters, which is
  what a mint address consists of.
\<close>

definition lower_char :: "char \<Rightarrow> char" where
  "lower_char c =
     (case map_of (zip ''ABCDEFGHIJKLMNOPQRSTUVWXYZ'' ''abcdefghijklmnopqrstuvwxyz'') c of
        Some l \<Rightarrow> l
      | None \<Rightarrow> c)"

definition toLowerCase :: "string \<Rightarrow> string" where
  "toLowerCase s = map lower_char s"

definition endsWith :: "string \<Rightarrow> string \<Rightarrow> bool" where
  "endsWith s suf = (length suf \<le> length s \<and> drop (length s - length suf) s = suf)"

fun js_join :: "string \<Rightarrow> string list \<Rightarrow> string" where
  "js_join sep [] = []"
| "js_join sep [x] = x"
| "js_join sep (x # y # ys) = x @ sep @ js_join sep (y # ys)"

text \<open>
  Every message of the checklists is a template literal that starts with one of three
  emoji and interpolates numbers and strings. A message is kept as the list of its pieces
  instead of the rendered text: the emoji as a \<open>Mark\<close>, literal text (its dashes written
  in ASCII), a number with the way it is formatted, an interpolated string. The test
  \<open>message.includes(emoji)\<close> of the source is the test whether that mark is a piece of
  the message: rendered numbers and literal text contain no emoji, and the interpolated
  strings (a venue tag, creator handles) are taken to contain none.
\<close>

datatype marker = CheckMark | WarnMark | CrossMark

datatype piece =
    Mark marker
  | Txt string
  | Fixed nat jsnum
  | Compact jsnum
  | Plain jsnum
  | Str string

type_synonym message = "piece list"

definition includes_mark :: "message \<Rightarrow> marker \<Rightarrow> bool" where
  "includes_mark msg m = (Mark m \<in> set msg)"

text \<open>\<open>x >= 0 ? '+' : ''\<close>, the sign prefix of several messages.\<close>

definition plus_sign :: "jsnum \<Rightarrow> piece" where
  "plus_sign x = Txt (if js_ge x (Fin 0) then ''+'' else [])"

section \<open>Market snapshot\<close>

record 'a windows =
  h1 :: 'a
  h6 :: 'a
  h24 :: 'a
  m5 :: 'a

record txn_count =
  buys :: nat
  sells :: nat

text \<open>
  \<open>TokenData\<close> as \<open>getTokenData\<close> returns it: every absent number already replaced by
  \<open>0\<close>, the liquidity passed through as it came (\<open>None\<close> when the venue reports none).
  The first checklist reads only the \<open>h1\<close> and \<open>h24\<close> transaction windows.
\<close>

record TokenData =
  symbol :: string
  tname :: string
  priceUsd :: string
  priceChange :: "jsnum windows"
  volume :: "jsnum windows"
  liquidity :: "jsnum option"
  mcap :: jsnum
  pairCreatedAt :: jsnum
  dexId :: string
  txns :: "txn_count windows"

definition getPoolAgeHours :: "jsnum \<Rightarrow> jsnum \<Rightarrow> jsnum" where
  \<comment> \<open>second argument: \<open>Date.now()\<close>\<close>
  "getPoolAgeHours createdAt now =
     (if \<not> js_truthy createdAt then Fin 0
      else js_div (js_sub now createdAt) (Fin (1000 * 60 * 60)))"

definition isBags :: "string \<Rightarrow> TokenData \<Rightarrow> bool" where
  "isBags mint token = (dexId token = ''bags'' \<or> endsWith (toLowerCase mint) ''bags'')"

section \<open>Checks and verdicts\<close>

record check =
  name :: string
  status :: bool
  message :: message

record check_v2 = check +
  critical :: bool

datatype verdict = ALLOW | WARN | BLOCK

section \<open>Creator verification\<close>

record Creator =
  twitterUsername :: "string option"
  twitterPfpUrl :: "string option"
  twitterDisplayName :: "string option"
  githubUsername :: "string option"
  royaltyBps :: jsnum
  walletAddress :: string

text \<open>A creator as the SDK returns it: any field may be missing.\<close>

record RawCreator =
  raw_twitterUsername :: "string option"
  raw_twitterPfpUrl :: "string option"
  raw_twitterDisplayName :: "string option"
  raw_githubUsername :: "string option"
  raw_feeBps :: "jsnum option"
  raw_royaltyBps :: "jsnum option"
  raw_walletAddress :: "string option"

record DevVerification =
  verified :: bool
  creators :: "Creator list"
  lifetimeFees :: jsnum
  dmessage :: message

text \<open>Truthiness of an optional string: absent and empty are falsy.\<close>

fun str_truthy :: "string option \<Rightarrow> bool" where
  "str_truthy None = False"
| "str_truthy (Some s) = (s \<noteq> [])"

definition str_or_null :: "string option \<Rightarrow> string option" where
  \<comment> \<open>\<open>x || null\<close>\<close>
  "str_or_null x = (if str_truthy x then x else None)"

fun num_or :: "jsnum option \<Rightarrow> jsnum \<Rightarrow> jsnum" where
  \<comment> \<open>\<open>x || d\<close>\<close>
  "num_or None d = d"
| "num_or (Some x) d = (if js_truthy x then x else d)"

fun str_or :: "string option \<Rightarrow> string \<Rightarrow> string" where
  "str_or None d = d"
| "str_or (Some s) d = (if s \<noteq> [] then s else d)"

definition convert_creator :: "RawCreator \<Rightarrow> Creator" where
  "convert_creator c =
     \<lparr> twitterUsername = str_or_null (raw_twitterUsername c),
       twitterPfpUrl = str_or_null (raw_twitterPfpUrl c),
       twitterDisplayName = str_or_null (raw_twitterDisplayName c),
       githubUsername = str_or_null (raw_githubUsername c),
       royaltyBps = num_or (raw_feeBps c) (num_or (raw_royaltyBps c) (Fin 0)),
       walletAddress = str_or (raw_walletAddress c) [] \<rparr>"

definition has_socials :: "Creator \<Rightarrow> bool" where
  \<comment> \<open>\<open>c.twitterUsername || c.githubUsername\<close>\<close>
  "has_socials c = (str_truthy (twitterUsername c) \<or> str_truthy (githubUsername c))"

definition handle :: "Creator \<Rightarrow> string" where
  "handle c =
     (if str_truthy (twitterUsername c) then ''@'' @ str_or (twitterUsername c) []
      else ''GH:'' @ (case githubUsername c of Some g \<Rightarrow> g | None \<Rightarrow> ''null''))"

text \<open>
  What the outside world answers to \<open>verifyDev\<close>. The SDK path runs inside one \<open>try\<close>:
  loading the SDK, reading the API key or parsing the mint may throw (\<open>SdkThrows\<close>);
  otherwise the two requests settle, each fulfilled or rejected, the fees with a number or
  with something that is not a number (\<open>None\<close>). The fallback request throws or returns a
  body whose \<open>results\<close> may be missing.
\<close>

datatype 'a settled = Fulfilled 'a | Rejected

datatype sdk_reply =
    SdkThrows
  | SdkSettled "RawCreator list option settled" "jsnum option settled"

datatype api_reply = ApiThrows | ApiReturns "Creator list option"

record verify_env =
  sdk :: "string \<Rightarrow> sdk_reply"
  creators_api :: "string \<Rightarrow> api_reply"

definition verified_message :: "Creator list \<Rightarrow> message" where
  "verified_message verifiedCreators =
     [Mark CheckMark, Txt '' DEV VERIFIED: '', Str (js_join '', '' (map handle verifiedCreators))]"

definition verifyDev :: "verify_env \<Rightarrow> string \<Rightarrow> DevVerification" where
  "verifyDev env mint =
     (case sdk env mint of
        SdkSettled creatorsResult feesResult \<Rightarrow>
          (let rawCreators =
                 (case creatorsResult of
                    Fulfilled (Some cs) \<Rightarrow> cs
                  | Fulfilled None \<Rightarrow> []
                  | Rejected \<Rightarrow> []);
               creators = map convert_creator rawCreators;
               lifetimeFees =
                 (case feesResult of
                    Fulfilled (Some x) \<Rightarrow> js_div (num_or (Some x) (Fin 0)) (Fin 1000000000)
                  | Fulfilled None \<Rightarrow> Fin 0
                  | Rejected \<Rightarrow> Fin 0);
               verifiedCreators = filter has_socials creators;
               verified = (length verifiedCreators > 0);
               message =
                 (if verified
                  then verified_message verifiedCreators
                         @ [Txt '' | Lifetime fees: '', Fixed 2 lifetimeFees, Txt '' SOL'']
                  else [Mark CrossMark, Txt '' LESSON #15: NO VERIFIED DEV -- '',
                        Plain (num (length creators)),
                        Txt '' creator(s) but no socials!''])
           in \<lparr> verified = verified, creators = creators,
                lifetimeFees = lifetimeFees, dmessage = message \<rparr>)
      | SdkThrows \<Rightarrow>
          (case creators_api env mint of
             ApiReturns results \<Rightarrow>
               (let creators = (case results of Some cs \<Rightarrow> cs | None \<Rightarrow> []);
                    verifiedCreators = filter has_socials creators;
                    verified = (length verifiedCreators > 0);
                    message =
                      (if verified
                       then verified_message verifiedCreators
                       else [Mark CrossMark, Txt '' LESSON #15: NO VERIFIED DEV''])
                in \<lparr> verified = verified, creators = creators,
                     lifetimeFees = Fin 0, dmessage = message \<rparr>)
           | ApiThrows \<Rightarrow>
               \<lparr> verified = False, creators = [], lifetimeFees = Fin 0,
                 dmessage = [Mark WarnMark, Txt ''  Could not verify dev (API error)''] \<rparr>))"

section \<open>The pre-trade checklist, second version\<close>

text \<open>
  What a run of a checklist reads from outside: the clock (\<open>Date.now()\<close> and the hour of
  the day in the Pacific time zone), the market-data service (\<open>getTokenData\<close>, \<open>None\<close> when
  it returns \<open>null\<close>) and the verification services.
\<close>

record world =
  now :: jsnum
  pst_hour :: int
  market :: "string \<Rightarrow> TokenData option"
  verify :: verify_env

definition h24Ratio :: "TokenData \<Rightarrow> jsnum" where
  "h24Ratio token =
     (if js_gt (num (sells (h24 (txns token)))) (Fin 0)
      then js_div (num (buys (h24 (txns token)))) (num (sells (h24 (txns token))))
      else num (buys (h24 (txns token))))"

definition h1Ratio :: "TokenData \<Rightarrow> jsnum" where
  "h1Ratio token =
     (if js_gt (num (sells (h1 (txns token)))) (Fin 0)
      then js_div (num (buys (h1 (txns token)))) (num (sells (h1 (txns token))))
      else num (buys (h1 (txns token))))"

definition m5Ratio :: "txn_count windows \<Rightarrow> jsnum" where
  "m5Ratio tx =
     (let m5Buys = num (buys (m5 tx)); m5Sells = num (sells (m5 tx))
      in if js_gt m5Sells (Fin 0) then js_div m5Buys m5Sells else m5Buys)"

definition isActiveDump :: "txn_count windows \<Rightarrow> jsnum windows \<Rightarrow> bool \<times> message" where
  "isActiveDump tx pc =
     (let m5Change = m5 pc
      in if js_lt (m5Ratio tx) (Fin (1 / 2)) \<and> js_lt m5Change (Fin (- 5))
         then (True, [Mark CrossMark, Txt '' ACTIVE DUMP: m5 ratio '', Fixed 2 (m5Ratio tx),
                      Txt '':1, price '', Fixed 1 m5Change, Txt ''%''])
         else if js_lt (m5Ratio tx) (Fin (8 / 10)) \<and> js_lt m5Change (Fin (- 10))
         then (True, [Mark WarnMark, Txt ''  Sell pressure: m5 ratio '', Fixed 2 (m5Ratio tx),
                      Txt '':1, price '', Fixed 1 m5Change, Txt ''%''])
         else (False, [Mark CheckMark, Txt '' m5 ratio: '', Fixed 2 (m5Ratio tx),
                       Txt '':1, price '', plus_sign m5Change, Fixed 1 m5Change, Txt ''%'']))"

text \<open>The nine checks, in the order in which \<open>runChecklist\<close> pushes them.\<close>

definition check_bags :: "string \<Rightarrow> TokenData \<Rightarrow> check_v2" where
  "check_bags mint token =
     \<lparr> name = ''BAGS Ecosystem'',
       status = isBags mint token,
       message =
         (if isBags mint token
          then [Mark CheckMark, Txt '' BAGS token (dexId: '', Str (dexId token), Txt '')'']
          else [Mark CrossMark,
                Txt '' NOT a BAGS token -- BagBot ONLY trades BAGS ecosystem!'']),
       critical = True \<rparr>"

definition check_dev :: "DevVerification \<Rightarrow> check_v2" where
  "check_dev devInfo =
     \<lparr> name = ''Dev Verification'',
       status = verified devInfo,
       message = dmessage devInfo,
       critical = True \<rparr>"

definition h1Pump :: "TokenData \<Rightarrow> bool" where
  "h1Pump token = js_gt (h1 (priceChange token)) (Fin 100)"

definition chase_message :: "jsnum \<Rightarrow> message" where
  "chase_message change =
     [Mark CrossMark, Txt '' LESSON #14: +'', Fixed 0 change,
      Txt ''% h1 -- DON'T CHASE PUMPS!'']"

definition check_h1_pump :: "TokenData \<Rightarrow> check_v2" where
  "check_h1_pump token =
     \<lparr> name = ''H1 Pump Check'',
       status = (\<not> h1Pump token),
       message =
         (if h1Pump token then chase_message (h1 (priceChange token))
          else if js_gt (h1 (priceChange token)) (Fin 50)
          then [Mark WarnMark, Txt ''  +'', Fixed 0 (h1 (priceChange token)),
                Txt ''% h1 -- significant move, timing risky'']
          else [Mark CheckMark, Txt '' h1 change: '', plus_sign (h1 (priceChange token)),
                Fixed 0 (h1 (priceChange token)), Txt ''% (reasonable entry)'']),
       critical = h1Pump token \<rparr>"

definition ratioTrap :: "TokenData \<Rightarrow> DevVerification \<Rightarrow> bool" where
  "ratioTrap token devInfo = (js_gt (h24Ratio token) (Fin 10) \<and> \<not> verified devInfo)"

definition ratioBearish :: "TokenData \<Rightarrow> bool" where
  "ratioBearish token = js_lt (h1Ratio token) (Fin (1 / 2))"

definition check_ratio :: "TokenData \<Rightarrow> DevVerification \<Rightarrow> check_v2" where
  "check_ratio token devInfo =
     \<lparr> name = ''Buy/Sell Ratio'',
       status = (\<not> ratioTrap token devInfo \<and> \<not> ratioBearish token),
       message =
         (if ratioTrap token devInfo
          then [Mark CrossMark, Txt '' LESSON #15: '', Fixed 0 (h24Ratio token),
                Txt '':1 ratio WITHOUT verified dev = PUMP TRAP!'']
          else if ratioBearish token
          then [Mark WarnMark, Txt ''  h1 ratio '', Fixed 2 (h1Ratio token),
                Txt '':1 -- more sellers than buyers'']
          else [Mark CheckMark, Txt '' h24: '', Fixed 2 (h24Ratio token),
                Txt '':1 | h1: '', Fixed 2 (h1Ratio token), Txt '':1'']),
       critical = ratioTrap token devInfo \<rparr>"

definition check_m5 :: "TokenData \<Rightarrow> check_v2" where
  "check_m5 token =
     (let dumpCheck = isActiveDump (txns token) (priceChange token)
      in \<lparr> name = ''M5 Momentum'',
           status = (\<not> fst dumpCheck),
           message = snd dumpCheck,
           critical = (fst dumpCheck \<and> includes_mark (snd dumpCheck) CrossMark) \<rparr>)"

definition check_volume :: "TokenData \<Rightarrow> check_v2" where
  "check_volume token =
     (let volumeOk = js_ge (h24 (volume token)) (Fin 5000)
      in \<lparr> name = ''Volume'',
           status = volumeOk,
           message =
             (if volumeOk
              then [Mark CheckMark, Txt '' 24h Volume: $'', Compact (h24 (volume token))]
              else [Mark WarnMark, Txt ''  24h Volume: $'', Compact (h24 (volume token)),
                    Txt '' (low activity)'']),
           critical = False \<rparr>)"

definition volMcapRatio :: "TokenData \<Rightarrow> jsnum" where
  "volMcapRatio token =
     (if js_gt (mcap token) (Fin 0) then js_div (h24 (volume token)) (mcap token) else Fin 0)"

definition check_vol_mcap :: "TokenData \<Rightarrow> check_v2" where
  "check_vol_mcap token =
     \<lparr> name = ''Vol/MCap'',
       status = js_gt (volMcapRatio token) (Fin (1 / 2)),
       message =
         (if js_gt (volMcapRatio token) (Fin 2)
          then [Mark CheckMark, Txt '' Vol/MCap: '', Fixed 1 (volMcapRatio token),
                Txt ''x (highly active)'']
          else if js_gt (volMcapRatio token) (Fin (1 / 2))
          then [Mark CheckMark, Txt '' Vol/MCap: '', Fixed 1 (volMcapRatio token),
                Txt ''x (healthy)'']
          else [Mark WarnMark, Txt ''  Vol/MCap: '', Fixed 1 (volMcapRatio token),
                Txt ''x (low activity)'']),
       critical = False \<rparr>"

definition sizeOk :: "jsnum \<Rightarrow> bool" where
  "sizeOk entryAmount = (js_ge entryAmount (Fin (2 / 10)) \<and> js_le entryAmount (Fin 1))"

definition size_message :: "jsnum \<Rightarrow> string \<Rightarrow> message" where
  "size_message entryAmount ok_tail =
     (if js_lt entryAmount (Fin (2 / 10))
      then [Mark CrossMark, Txt '' LESSON #23: '', Plain entryAmount,
            Txt '' SOL too small. Use 0.2-0.3 SOL standard.'']
      else if js_gt entryAmount (Fin 1)
      then [Mark CrossMark, Txt '' Position '', Plain entryAmount,
            Txt '' SOL exceeds max (1 SOL)'']
      else [Mark CheckMark, Txt '' Position size: '', Plain entryAmount, Txt ok_tail])"

definition check_size :: "jsnum \<Rightarrow> check_v2" where
  "check_size entryAmount =
     \<lparr> name = ''Position Size'',
       status = sizeOk entryAmount,
       message = size_message entryAmount '' SOL'',
       critical = (\<not> sizeOk entryAmount) \<rparr>"

definition check_h24_pump :: "TokenData \<Rightarrow> check_v2" where
  "check_h24_pump token =
     (let h24Pump = js_gt (h24 (priceChange token)) (Fin 300)
      in \<lparr> name = ''H24 Pump Check'',
           status = (\<not> h24Pump),
           message =
             (if h24Pump
              then [Mark WarnMark, Txt ''  +'', Fixed 0 (h24 (priceChange token)),
                    Txt ''% h24 -- already moved significantly'']
              else [Mark CheckMark, Txt '' h24 change: '', plus_sign (h24 (priceChange token)),
                    Fixed 0 (h24 (priceChange token)), Txt ''%'']),
           critical = False \<rparr>)"

definition checks_v2 :: "string \<Rightarrow> jsnum \<Rightarrow> TokenData \<Rightarrow> DevVerification \<Rightarrow> check_v2 list" where
  "checks_v2 mint entryAmount token devInfo =
     [check_bags mint token, check_dev devInfo, check_h1_pump token,
      check_ratio token devInfo, check_m5 token, check_volume token,
      check_vol_mcap token, check_size entryAmount, check_h24_pump token]"

text \<open>The summary loop: one pass over the checks with the two counters.\<close>

fun tally_v2 :: "check_v2 list \<Rightarrow> nat \<times> nat \<Rightarrow> nat \<times> nat" where
  "tally_v2 [] acc = acc"
| "tally_v2 (c # cs) (criticalFails, warnings) =
     tally_v2 cs
       (if \<not> status c \<and> critical c then criticalFails + 1 else criticalFails,
        if \<not> status c \<and> \<not> critical c then warnings + 1 else warnings)"

definition verdict_v2 :: "check_v2 list \<Rightarrow> verdict" where
  "verdict_v2 cs =
     (case tally_v2 cs (0, 0) of
        (criticalFails, warnings) \<Rightarrow>
          if criticalFails > 0 then BLOCK else if warnings > 0 then WARN else ALLOW)"

text \<open>
  A run either aborts because no market data came back, or prints the pool age, the
  checks and the verdict.
\<close>

datatype outcome_v2 = Aborted_v2 | Report_v2 jsnum "check_v2 list" verdict

definition runChecklist_v2 :: "world \<Rightarrow> string \<Rightarrow> jsnum \<Rightarrow> outcome_v2" where
  "runChecklist_v2 w mint entryAmount =
     (let devInfo = verifyDev (verify w) mint
      in case market w mint of
           None \<Rightarrow> Aborted_v2
         | Some token \<Rightarrow>
             Report_v2 (getPoolAgeHours (pairCreatedAt token) (now w))
               (checks_v2 mint entryAmount token devInfo)
               (verdict_v2 (checks_v2 mint entryAmount token devInfo)))"

section \<open>The pre-trade checklist, first version\<close>

definition isTradinghours :: "int \<Rightarrow> bool \<times> message" where
  \<comment> \<open>argument: the current hour in the Pacific time zone\<close>
  "isTradinghours hour =
     (if hour < 9 \<or> hour \<ge> 22
      then (False, [Mark CrossMark,
                    Txt '' LESSON #26: Trading hours are 9 AM - 10 PM PST. Current: '',
                    Plain (Fin (of_int hour)), Txt '':00 PST''])
      else (True, [Mark CheckMark, Txt '' Trading hours OK ('',
                   Plain (Fin (of_int hour)), Txt '':00 PST)'']))"

definition check_hours :: "int \<Rightarrow> check" where
  "check_hours hour =
     \<lparr> name = ''Trading Hours'',
       status = fst (isTradinghours hour),
       message = snd (isTradinghours hour) \<rparr>"

definition check_bags_v1 :: "string \<Rightarrow> TokenData \<Rightarrow> check" where
  "check_bags_v1 mint token =
     \<lparr> name = ''BAGS Ecosystem'',
       status = isBags mint token,
       message =
         (if isBags mint token
          then [Mark CheckMark, Txt '' BAGS token (dexId: '', Str (dexId token), Txt '')'']
          else [Mark CrossMark, Txt '' NOT a BAGS token (dexId: '', Str (dexId token),
                Txt '') -- BagBot only trades BAGS ecosystem!'']) \<rparr>"

definition check_age :: "string \<Rightarrow> TokenData \<Rightarrow> jsnum \<Rightarrow> check" where
  "check_age mint token ageHours =
     (let ageOk = (isBags mint token \<or> js_ge ageHours (Fin 24))
      in \<lparr> name = ''Pool Age'',
           status = (ageOk \<or> js_ge ageHours (Fin 6)),
           message =
             (if js_ge ageHours (Fin 24)
              then [Mark CheckMark, Txt '' Pool age: '', Fixed 1 ageHours, Txt ''h (>24h)'']
              else if js_ge ageHours (Fin 6)
              then [Mark WarnMark, Txt ''  Pool age: '', Fixed 1 ageHours,
                    Txt ''h (6-24h, moderate risk)'']
              else [Mark CrossMark, Txt '' Pool age: '', Fixed 1 ageHours,
                    Txt ''h (<6h HIGH RISK)'']) \<rparr>)"

definition check_volume_v1 :: "TokenData \<Rightarrow> check" where
  "check_volume_v1 token =
     (let volumeOk = js_ge (h24 (volume token)) (Fin 10000)
      in \<lparr> name = ''Volume'',
           status = volumeOk,
           message =
             (if volumeOk
              then [Mark CheckMark, Txt '' 24h Volume: $'', Compact (h24 (volume token)),
                    Txt '' (>$10K)'']
              else [Mark WarnMark, Txt ''  24h Volume: $'', Compact (h24 (volume token)),
                    Txt '' (<$10K - low activity)'']) \<rparr>)"

definition buyRatio :: "TokenData \<Rightarrow> jsnum" where
  "buyRatio token =
     (if js_gt (num (sells (h24 (txns token)))) (Fin 0)
      then js_div (num (buys (h24 (txns token)))) (num (sells (h24 (txns token))))
      else num (buys (h24 (txns token))))"

definition check_ratio_v1 :: "TokenData \<Rightarrow> check" where
  "check_ratio_v1 token =
     (let ratioOk = (js_ge (buyRatio token) (Fin 1) \<and> js_le (buyRatio token) (Fin 10))
      in \<lparr> name = ''Buy/Sell Ratio'',
           status = ratioOk,
           message =
             (if js_gt (buyRatio token) (Fin 10)
              then [Mark CrossMark, Txt '' LESSON #15: Buy ratio '', Fixed 1 (buyRatio token),
                    Txt '':1 TOO HIGH -- coordinated pump trap!'']
              else if js_ge (buyRatio token) (Fin 1)
              then [Mark CheckMark, Txt '' Buy ratio: '', Fixed 2 (buyRatio token),
                    Txt '':1 (healthy bullish pressure)'']
              else [Mark WarnMark, Txt ''  Buy ratio: '', Fixed 2 (buyRatio token),
                    Txt '':1 (more sellers than buyers)'']) \<rparr>)"

definition check_liquidity_estimate :: "TokenData \<Rightarrow> check" where
  "check_liquidity_estimate token =
     (let impactOk = js_gt (volMcapRatio token) (Fin (1 / 10))
      in \<lparr> name = ''Liquidity Estimate'',
           status = impactOk,
           message =
             (if impactOk
              then [Mark CheckMark, Txt '' Vol/MCap: '', Fixed 2 (volMcapRatio token),
                    Txt ''x (adequate liquidity)'']
              else [Mark WarnMark, Txt ''  Vol/MCap: '', Fixed 2 (volMcapRatio token),
                    Txt ''x (may have high slippage)'']) \<rparr>)"

definition isChasing :: "TokenData \<Rightarrow> bool" where
  "isChasing token = js_gt (h24 (priceChange token)) (Fin 500)"

definition chase_message_v1 :: "jsnum \<Rightarrow> message" where
  "chase_message_v1 change =
     [Mark CrossMark, Txt '' LESSON #14: +'', Fixed 0 change,
      Txt ''% 24h -- DON'T CHASE PUMPS!'']"

definition check_pump :: "TokenData \<Rightarrow> check" where
  "check_pump token =
     \<lparr> name = ''Pump Check'',
       status = (\<not> isChasing token),
       message =
         (if isChasing token then chase_message_v1 (h24 (priceChange token))
          else if js_gt (h24 (priceChange token)) (Fin 200)
          then [Mark WarnMark, Txt ''  +'', Fixed 0 (h24 (priceChange token)),
                Txt ''% 24h -- already moved significantly'']
          else [Mark CheckMark, Txt '' Price change: '', Fixed 0 (h24 (priceChange token)),
                Txt ''% 24h (reasonable entry)'']) \<rparr>"

definition check_size_v1 :: "jsnum \<Rightarrow> check" where
  "check_size_v1 entryAmount =
     \<lparr> name = ''Position Size'',
       status = sizeOk entryAmount,
       message = size_message entryAmount '' SOL (within limits)'' \<rparr>"

definition checks_v1 :: "int \<Rightarrow> jsnum \<Rightarrow> string \<Rightarrow> jsnum \<Rightarrow> TokenData \<Rightarrow> check list" where
  \<comment> \<open>first two arguments: the Pacific hour and \<open>Date.now()\<close>\<close>
  "checks_v1 hour now_ms mint entryAmount token =
     [check_hours hour, check_bags_v1 mint token,
      check_age mint token (getPoolAgeHours (pairCreatedAt token) now_ms),
      check_volume_v1 token, check_ratio_v1 token, check_liquidity_estimate token,
      check_pump token, check_size_v1 entryAmount]"

text \<open>
  The summary loop of the first version has no severity field: a check counts as failed
  when its status is false and its message carries no warning sign, and as a warning
  whenever its message carries the warning sign.
\<close>

fun tally_v1 :: "check list \<Rightarrow> nat \<times> nat \<Rightarrow> nat \<times> nat" where
  "tally_v1 [] acc = acc"
| "tally_v1 (c # cs) (failCount, warnCount) =
     tally_v1 cs
       (if \<not> status c \<and> \<not> includes_mark (message c) WarnMark
        then failCount + 1 else failCount,
        if includes_mark (message c) WarnMark then warnCount + 1 else warnCount)"

definition verdict_v1 :: "check list \<Rightarrow> verdict" where
  "verdict_v1 cs =
     (case tally_v1 cs (0, 0) of
        (failCount, warnCount) \<Rightarrow>
          if failCount > 0 then BLOCK else if warnCount > 0 then WARN else ALLOW)"

datatype outcome_v1 = Aborted_v1 | Report_v1 "check list" verdict

definition runChecklist_v1 :: "world \<Rightarrow> string \<Rightarrow> jsnum \<Rightarrow> outcome_v1" where
  "runChecklist_v1 w mint entryAmount =
     (case market w mint of
        None \<Rightarrow> Aborted_v1
      | Some token \<Rightarrow>
          Report_v1 (checks_v1 (pst_hour w) (now w) mint entryAmount token)
            (verdict_v1 (checks_v1 (pst_hour w) (now w) mint entryAmount token)))"

section \<open>The scanner's metrics\<close>

text \<open>
  A pair as the market-data service returns it; any field may be missing. The price is
  kept as the number \<open>parseFloat\<close> reads from it.
\<close>

record DexPair =
  pair_liquidity_usd :: "jsnum option"
  pair_priceUsd :: "jsnum option"
  pair_volume_h24 :: "jsnum option"
  pair_marketCap :: "jsnum option"
  pair_fdv :: "jsnum option"
  pair_buys_h24 :: "nat option"
  pair_sells_h24 :: "nat option"

fun count_or0 :: "nat option \<Rightarrow> nat" where
  "count_or0 None = 0"
| "count_or0 (Some n) = n"

record Metrics =
  m_mcap :: jsnum
  m_volume24h :: jsnum
  m_volMcapRatio :: jsnum
  m_buyRatio :: jsnum
  m_txCount24h :: jsnum
  m_avgTxSize :: jsnum

text \<open>The metrics part of \<open>analyzeToken\<close>; score and signal texts are left out.\<close>

definition analyzeToken :: "DexPair \<Rightarrow> Metrics" where
  "analyzeToken pair =
     (let mcap = num_or (pair_marketCap pair) (num_or (pair_fdv pair) (Fin 0));
          vol = num_or (pair_volume_h24 pair) (Fin 0);
          volMcapRatio = (if js_gt mcap (Fin 0) then js_div vol mcap else Fin 0);
          buys24 = num (count_or0 (pair_buys_h24 pair));
          sells24 = num (count_or0 (pair_sells_h24 pair));
          buyRatio = (if js_gt sells24 (Fin 0) then js_div buys24 sells24 else buys24);
          txCount = js_add buys24 sells24;
          avgTxSize = (if js_gt txCount (Fin 0) then js_div vol txCount else Fin 0)
      in \<lparr> m_mcap = mcap, m_volume24h = vol, m_volMcapRatio = volMcapRatio,
           m_buyRatio = buyRatio, m_txCount24h = txCount, m_avgTxSize = avgTxSize \<rparr>)"

section \<open>The liquidity monitor\<close>

definition LIQUIDITY_CRITICAL :: jsnum where "LIQUIDITY_CRITICAL = Fin 100"
definition LIQUIDITY_WARNING :: jsnum where "LIQUIDITY_WARNING = Fin 500"

record Position =
  pos_symbol :: string
  pos_name :: string
  pos_address :: string
  entryPrice :: jsnum
  tokens :: jsnum
  costBasis :: jsnum
  pos_notes :: "string option"

datatype liquidity_class = STRANDED | WARNING | HEALTHY | ERROR

record LiquidityStatus =
  ls_symbol :: string
  ls_address :: string
  ls_liquidity :: jsnum
  ls_liquiditySol :: jsnum
  ls_currentValue :: jsnum
  ls_priceUsd :: jsnum
  ls_status :: liquidity_class
  ls_canExit :: bool
  ls_pnlPercent :: jsnum

record LiquidityData =
  ld_liquidity :: jsnum
  ld_priceUsd :: jsnum
  ld_volume24h :: jsnum

text \<open>The answer of the market-data service to one request: it throws, or returns pairs.\<close>

datatype dex_reply = DexThrows | DexReturns "DexPair list"

fun fetchLiquidity :: "dex_reply \<Rightarrow> LiquidityData option" where
  "fetchLiquidity DexThrows = None"
| "fetchLiquidity (DexReturns []) = None"
| "fetchLiquidity (DexReturns (pair # _)) =
     Some \<lparr> ld_liquidity = num_or (pair_liquidity_usd pair) (Fin 0),
            ld_priceUsd = (case pair_priceUsd pair of Some x \<Rightarrow> x | None \<Rightarrow> Fin 0),
            ld_volume24h = num_or (pair_volume_h24 pair) (Fin 0) \<rparr>"

definition getStatus :: "jsnum \<Rightarrow> liquidity_class" where
  "getStatus liq =
     (if js_lt liq LIQUIDITY_CRITICAL then STRANDED
      else if js_lt liq LIQUIDITY_WARNING then WARNING
      else HEALTHY)"

text \<open>The body of the loop of \<open>checkLiquidity\<close>: the entry pushed for one position.\<close>

definition liquidity_entry :: "Position \<Rightarrow> LiquidityData option \<Rightarrow> LiquidityStatus" where
  "liquidity_entry pos data =
     (case data of
        Some d \<Rightarrow>
          (let solPrice = Fin 200;
               currentValue = js_mul (ld_priceUsd d) (tokens pos);
               pnlPercent =
                 js_mul (js_sub (js_div (ld_priceUsd d) (entryPrice pos)) (Fin 1)) (Fin 100)
           in \<lparr> ls_symbol = pos_symbol pos, ls_address = pos_address pos,
                ls_liquidity = ld_liquidity d,
                ls_liquiditySol = js_div (ld_liquidity d) solPrice,
                ls_currentValue = currentValue, ls_priceUsd = ld_priceUsd d,
                ls_status = getStatus (ld_liquidity d),
                ls_canExit = js_gt (ld_liquidity d) (js_mul currentValue (Fin 2)),
                ls_pnlPercent = pnlPercent \<rparr>)
      | None \<Rightarrow>
          \<lparr> ls_symbol = pos_symbol pos, ls_address = pos_address pos,
            ls_liquidity = Fin 0, ls_liquiditySol = Fin 0, ls_currentValue = Fin 0,
            ls_priceUsd = Fin 0, ls_status = ERROR, ls_canExit = False,
            ls_pnlPercent = Fin 0 \<rparr>)"

text \<open>
  \<open>checkLiquidity\<close> before it sorts and prints, and \<open>getStrandedPositions\<close>; the first
  argument is what the market-data service answers for an address.
\<close>

fun checkLiquidity :: "(string \<Rightarrow> dex_reply) \<Rightarrow> Position list \<Rightarrow> LiquidityStatus list" where
  "checkLiquidity dex [] = []"
| "checkLiquidity dex (pos # rest) =
     liquidity_entry pos (fetchLiquidity (dex (pos_address pos))) # checkLiquidity dex rest"

fun getStrandedPositions :: "(string \<Rightarrow> dex_reply) \<Rightarrow> Position list \<Rightarrow> string list" where
  "getStrandedPositions dex [] = []"
| "getStrandedPositions dex (pos # rest) =
     (case fetchLiquidity (dex (pos_address pos)) of
        Some d \<Rightarrow>
          if js_lt (ld_liquidity d) LIQUIDITY_CRITICAL
          then pos_symbol pos # getStrandedPositions dex rest
          else getStrandedPositions dex rest
      | None \<Rightarrow> getStrandedPositions dex rest)"

section \<open>The position value tracker\<close>

fun includes_str :: "string \<Rightarrow> string \<Rightarrow> bool" where
  "includes_str [] sub = (sub = [])"
| "includes_str (c # cs) sub = (take (length sub) (c # cs) = sub \<or> includes_str cs sub)"

definition notes_include :: "string option \<Rightarrow> string \<Rightarrow> bool" where
  \<comment> \<open>\<open>pos.notes?.includes(sub)\<close>\<close>
  "notes_include n sub = (case n of None \<Rightarrow> False | Some t \<Rightarrow> includes_str t sub)"

record SellQuote =
  outSol :: jsnum
  priceImpact :: jsnum

datatype value_class = PROFIT | LOSS | DIAMOND | QUOTE_ERROR

record PositionValue =
  pv_symbol :: string
  pv_address :: string
  pv_tokens :: jsnum
  pv_costBasis :: jsnum
  pv_sellValueSol :: jsnum
  pv_sellValueUsd :: jsnum
  pv_pnlSol :: jsnum
  pv_pnlPercent :: jsnum
  pv_priceImpact :: jsnum
  pv_status :: value_class
  pv_notes :: "string option"

definition SOL_PRICE_USD :: jsnum where "SOL_PRICE_USD = Fin 200"

text \<open>
  The body of the loop of \<open>checkPositionValues\<close>: the entry pushed for one position,
  given what \<open>getSellQuote\<close> returned for the whole position (\<open>None\<close> for \<open>null\<close>).
\<close>

definition position_value :: "Position \<Rightarrow> SellQuote option \<Rightarrow> PositionValue" where
  "position_value pos quote =
     (case quote of
        Some q \<Rightarrow>
          (let sellValueSol = outSol q;
               sellValueUsd = js_mul sellValueSol SOL_PRICE_USD;
               pnlSol = js_sub sellValueSol (costBasis pos);
               pnlPercent = js_mul (js_sub (js_div sellValueSol (costBasis pos)) (Fin 1)) (Fin 100);
               st = (if notes_include (pos_notes pos) ''DIAMOND''
                        \<or> notes_include (pos_notes pos) ''NEVER''
                     then DIAMOND
                     else if js_ge pnlPercent (Fin 0) then PROFIT
                     else LOSS)
           in \<lparr> pv_symbol = pos_symbol pos, pv_address = pos_address pos,
                pv_tokens = tokens pos, pv_costBasis = costBasis pos,
                pv_sellValueSol = sellValueSol, pv_sellValueUsd = sellValueUsd,
                pv_pnlSol = pnlSol, pv_pnlPercent = pnlPercent,
                pv_priceImpact = priceImpact q, pv_status = st, pv_notes = pos_notes pos \<rparr>)
      | None \<Rightarrow>
          \<lparr> pv_symbol = pos_symbol pos, pv_address = pos_address pos,
            pv_tokens = tokens pos, pv_costBasis = costBasis pos,
            pv_sellValueSol = Fin 0, pv_sellValueUsd = Fin 0,
            pv_pnlSol = js_neg (costBasis pos), pv_pnlPercent = Fin (- 100),
            pv_priceImpact = Fin 0, pv_status = QUOTE_ERROR, pv_notes = pos_notes pos \<rparr>)"

section \<open>The sell scripts\<close>

text \<open>
  A sell script is a straight sequence of requests to the trade API and to the chain.
  Its model returns the requests it made, in order, and how it ended. \<open>Broadcast\<close> records
  the two options the scripts pass: \<open>skipPreflight\<close> (true switches off the simulation the
  RPC node would run before sending) and \<open>maxRetries\<close> (how often the RPC node may resend
  the same signed transaction). \<open>BroadcastNoLimit\<close> is a broadcast that passes
  \<open>skipPreflight\<close> only: without \<open>maxRetries\<close> the RPC node resends by its own rule.
\<close>

datatype action =
    GetQuote | BuildTx | Sign | Simulate
  | Broadcast bool nat
  | BroadcastNoLimit bool
  | Confirm

datatype exec_error =
    QuoteFailed | BadAmount | ImpactTooHigh | BuildFailed | DecodeFailed
  | SimulationFailed | SendFailed | ConfirmExpired | TransactionFailed | NoInput

datatype 'a reply = Throws | Replies 'a

text \<open>
  The body of an API answer: \<open>ok\<close> is the \<open>success\<close> flag of the bags.fm envelope, or the
  absence of an \<open>error\<close> field in a Jupiter answer.
\<close>

record 'a body =
  ok :: bool
  payload :: 'a

record Quote =
  outAmount :: jsnum
  minOutAmount :: jsnum
  priceImpactPct :: jsnum
  has_routePlan :: bool

text \<open>
  What the bytes of a built transaction decode to: a transaction that
  \<open>VersionedTransaction.deserialize\<close> accepts, one that only the legacy
  \<open>Transaction.from\<close> accepts, or neither.
\<close>

datatype tx_format = Versioned | Legacy | Undecodable

text \<open>
  The confirmation: the wait throws because the validity window of the transaction
  lapsed or the wait timed out, or it returns with or without a transaction error.
  The simulation, where a script asks for one: the request throws, or it returns with
  or without a transaction error.
\<close>

datatype simulate_reply = SimulateThrows | SimulateErr | SimulateOk

datatype confirm_reply = BlockheightExceeded | ConfirmErr | ConfirmOk

record exec_env =
  quote_reply :: "Quote body reply"
  swap_reply :: "tx_format body reply"
  simulate_reply :: simulate_reply
  send_reply :: "string reply"
  confirm_reply :: confirm_reply

record Sale =
  signature :: string
  solReceived :: jsnum
  success :: bool

type_synonym run = "action list \<times> (exec_error + Sale)"

definition LAMPORTS_PER_SOL :: jsnum where "LAMPORTS_PER_SOL = Fin 1000000000"

text \<open>\<open>executeSell\<close>, the bags.fm sell.\<close>

definition executeSell :: "exec_env \<Rightarrow> run" where
  "executeSell env =
     (case quote_reply env of
        Throws \<Rightarrow> ([GetQuote], Inl QuoteFailed)
      | Replies quoteRes \<Rightarrow>
          if \<not> ok quoteRes then ([GetQuote], Inl QuoteFailed)
          else if \<not> has_routePlan (payload quoteRes) then ([GetQuote], Inl QuoteFailed)
          else
            (case swap_reply env of
               Throws \<Rightarrow> ([GetQuote, BuildTx], Inl BuildFailed)
             | Replies swapRes \<Rightarrow>
                 if \<not> ok swapRes then ([GetQuote, BuildTx], Inl BuildFailed)
                 else if payload swapRes = Undecodable
                 then ([GetQuote, BuildTx], Inl DecodeFailed)
                 else
                   (case send_reply env of
                      Throws \<Rightarrow> ([GetQuote, BuildTx, Sign, Broadcast True 3], Inl SendFailed)
                    | Replies sig \<Rightarrow>
                        (case confirm_reply env of
                           BlockheightExceeded \<Rightarrow>
                             ([GetQuote, BuildTx, Sign, Broadcast True 3, Confirm],
                              Inl ConfirmExpired)
                         | ConfirmErr \<Rightarrow>
                             ([GetQuote, BuildTx, Sign, Broadcast True 3, Confirm],
                              Inl TransactionFailed)
                         | ConfirmOk \<Rightarrow>
                             ([GetQuote, BuildTx, Sign, Broadcast True 3, Confirm],
                              Inr \<lparr> signature = sig,
                                    solReceived =
                                      js_div (outAmount (payload quoteRes)) LAMPORTS_PER_SOL,
                                    success = True \<rparr>)))))"

text \<open>
  \<open>BigInt(x)\<close> throws unless \<open>x\<close> is a whole number.
\<close>

fun is_whole :: "jsnum \<Rightarrow> bool" where
  "is_whole (Fin q) = (of_int \<lfloor>q\<rfloor> = q)"
| "is_whole _ = False"

text \<open>
  \<open>main\<close> of the Jupiter sell script \<open>sell-token\<close>. It stops when the price impact of the
  quote is above 5 and does not look at the error field of the confirmation.
\<close>

definition sell_token_main :: "exec_env \<Rightarrow> run" where
  "sell_token_main env =
     (case quote_reply env of
        Throws \<Rightarrow> ([GetQuote], Inl QuoteFailed)
      | Replies quote \<Rightarrow>
          if \<not> ok quote then ([GetQuote], Inl QuoteFailed)
          else if \<not> is_whole (outAmount (payload quote)) then ([GetQuote], Inl BadAmount)
          else if js_gt (priceImpactPct (payload quote)) (Fin 5)
          then ([GetQuote], Inl ImpactTooHigh)
          else
            (case swap_reply env of
               Throws \<Rightarrow> ([GetQuote, BuildTx], Inl BuildFailed)
             | Replies swapRes \<Rightarrow>
                 if payload swapRes \<noteq> Versioned
                 then ([GetQuote, BuildTx], Inl DecodeFailed)
                 else
                   (case send_reply env of
                      Throws \<Rightarrow> ([GetQuote, BuildTx, Sign, Broadcast True 3], Inl SendFailed)
                    | Replies sig \<Rightarrow>
                        (case confirm_reply env of
                           BlockheightExceeded \<Rightarrow>
                             ([GetQuote, BuildTx, Sign, Broadcast True 3, Confirm],
                              Inl ConfirmExpired)
                         | _ \<Rightarrow>
                             ([GetQuote, BuildTx, Sign, Broadcast True 3, Confirm],
                              Inr \<lparr> signature = sig,
                                    solReceived =
                                      js_div (outAmount (payload quote)) (Fin 1000000000),
                                    success = True \<rparr>)))))"

text \<open>
  \<open>sellTokens\<close> of the second Jupiter sell script. It does not look at the quote at all
  before it builds, and reports a transaction error of the confirmation in its result.
\<close>

definition sellTokens :: "exec_env \<Rightarrow> run" where
  "sellTokens env =
     (case quote_reply env of
        Throws \<Rightarrow> ([GetQuote], Inl QuoteFailed)
      | Replies quote \<Rightarrow>
          (case swap_reply env of
             Throws \<Rightarrow> ([GetQuote, BuildTx], Inl BuildFailed)
           | Replies swapRes \<Rightarrow>
               if payload swapRes \<noteq> Versioned
               then ([GetQuote, BuildTx], Inl DecodeFailed)
               else
                 (case send_reply env of
                    Throws \<Rightarrow> ([GetQuote, BuildTx, Sign, Broadcast True 3], Inl SendFailed)
                  | Replies sig \<Rightarrow>
                      (case confirm_reply env of
                         BlockheightExceeded \<Rightarrow>
                           ([GetQuote, BuildTx, Sign, Broadcast True 3, Confirm],
                            Inl ConfirmExpired)
                       | ConfirmErr \<Rightarrow>
                           ([GetQuote, BuildTx, Sign, Broadcast True 3, Confirm],
                            Inr \<lparr> signature = sig,
                                  solReceived =
                                    js_div (outAmount (payload quote)) (Fin 1000000000),
                                  success = False \<rparr>)
                       | ConfirmOk \<Rightarrow>
                           ([GetQuote, BuildTx, Sign, Broadcast True 3, Confirm],
                            Inr \<lparr> signature = sig,
                                  solReceived =
                                    js_div (outAmount (payload quote)) (Fin 1000000000),
                                  success = True \<rparr>)))))"

text \<open>
  \<open>sellTokens\<close> of the bags.fm sell script. It checks the \<open>success\<close> flag of both API
  answers and only prints a transaction error of the confirmation.
\<close>

definition sellTokens_bags :: "exec_env \<Rightarrow> run" where
  "sellTokens_bags env =
     (case quote_reply env of
        Throws \<Rightarrow> ([GetQuote], Inl QuoteFailed)
      | Replies quoteRes \<Rightarrow>
          if \<not> ok quoteRes then ([GetQuote], Inl QuoteFailed)
          else
            (case swap_reply env of
               Throws \<Rightarrow> ([GetQuote, BuildTx], Inl BuildFailed)
             | Replies txRes \<Rightarrow>
                 if \<not> ok txRes then ([GetQuote, BuildTx], Inl BuildFailed)
                 else if payload txRes \<noteq> Versioned
                 then ([GetQuote, BuildTx], Inl DecodeFailed)
                 else
                   (case send_reply env of
                      Throws \<Rightarrow> ([GetQuote, BuildTx, Sign, Broadcast True 3], Inl SendFailed)
                    | Replies sig \<Rightarrow>
                        (case confirm_reply env of
                           BlockheightExceeded \<Rightarrow>
                             ([GetQuote, BuildTx, Sign, Broadcast True 3, Confirm],
                              Inl ConfirmExpired)
                         | ConfirmErr \<Rightarrow>
                             ([GetQuote, BuildTx, Sign, Broadcast True 3, Confirm],
                              Inr \<lparr> signature = sig,
                                    solReceived =
                                      js_div (outAmount (payload quoteRes)) (Fin 1000000000),
                                    success = False \<rparr>)
                         | ConfirmOk \<Rightarrow>
                             ([GetQuote, BuildTx, Sign, Broadcast True 3, Confirm],
                              Inr \<lparr> signature = sig,
                                    solReceived =
                                      js_div (outAmount (payload quoteRes)) (Fin 1000000000),
                                    success = True \<rparr>)))))"

text \<open>
  \<open>main\<close> of the one-off sell script \<open>sell-creacher-now\<close>. It checks no flag of the API
  answers, broadcasts with \<open>skipPreflight\<close> as its only option, and does not look at the
  error field of the confirmation.
\<close>

definition sell_creacher_main :: "exec_env \<Rightarrow> run" where
  "sell_creacher_main env =
     (case quote_reply env of
        Throws \<Rightarrow> ([GetQuote], Inl QuoteFailed)
      | Replies quote \<Rightarrow>
          if \<not> is_whole (outAmount (payload quote)) then ([GetQuote], Inl BadAmount)
          else
            (case swap_reply env of
               Throws \<Rightarrow> ([GetQuote, BuildTx], Inl BuildFailed)
             | Replies swapRes \<Rightarrow>
                 if payload swapRes \<noteq> Versioned
                 then ([GetQuote, BuildTx], Inl DecodeFailed)
                 else
                   (case send_reply env of
                      Throws \<Rightarrow>
                        ([GetQuote, BuildTx, Sign, BroadcastNoLimit True], Inl SendFailed)
                    | Replies sig \<Rightarrow>
                        (case confirm_reply env of
                           BlockheightExceeded \<Rightarrow>
                             ([GetQuote, BuildTx, Sign, BroadcastNoLimit True, Confirm],
                              Inl ConfirmExpired)
                         | _ \<Rightarrow>
                             ([GetQuote, BuildTx, Sign, BroadcastNoLimit True, Confirm],
                              Inr \<lparr> signature = sig,
                                    solReceived =
                                      js_div (outAmount (payload quote)) (Fin 1000000000),
                                    success = True \<rparr>)))))"

text \<open>
  The one-off partial sell through Jupiter. It is the one script that simulates the
  signed transaction and stops on a simulation error before it broadcasts.
\<close>

definition partial_sell :: "exec_env \<Rightarrow> run" where
  "partial_sell env =
     (case quote_reply env of
        Throws \<Rightarrow> ([GetQuote], Inl QuoteFailed)
      | Replies quote \<Rightarrow>
          if \<not> ok quote then ([GetQuote], Inl QuoteFailed)
          else
            (case swap_reply env of
               Throws \<Rightarrow> ([GetQuote, BuildTx], Inl BuildFailed)
             | Replies swapData \<Rightarrow>
                 if \<not> ok swapData then ([GetQuote, BuildTx], Inl BuildFailed)
                 else if payload swapData \<noteq> Versioned
                 then ([GetQuote, BuildTx], Inl DecodeFailed)
                 else
                   (case simulate_reply env of
                      SimulateThrows \<Rightarrow>
                        ([GetQuote, BuildTx, Sign, Simulate], Inl SimulationFailed)
                    | SimulateErr \<Rightarrow>
                        ([GetQuote, BuildTx, Sign, Simulate], Inl SimulationFailed)
                    | SimulateOk \<Rightarrow>
                        (case send_reply env of
                           Throws \<Rightarrow>
                             ([GetQuote, BuildTx, Sign, Simulate, Broadcast True 3],
                              Inl SendFailed)
                         | Replies sig \<Rightarrow>
                             (case confirm_reply env of
                                BlockheightExceeded \<Rightarrow>
                                  ([GetQuote, BuildTx, Sign, Simulate, Broadcast True 3, Confirm],
                                   Inl ConfirmExpired)
                              | ConfirmErr \<Rightarrow>
                                  ([GetQuote, BuildTx, Sign, Simulate, Broadcast True 3, Confirm],
                                   Inl TransactionFailed)
                              | ConfirmOk \<Rightarrow>
                                  ([GetQuote, BuildTx, Sign, Simulate, Broadcast True 3, Confirm],
                                   Inr \<lparr> signature = sig,
                                         solReceived =
                                           js_div (outAmount (payload quote)) (Fin 1000000000),
                                         success = True \<rparr>))))))"

text \<open>
  The script that signs and sends a transaction given on the command line (\<open>None\<close> when
  the argument is missing). It requests no quote and leaves the preflight simulation of
  the RPC node switched on.
\<close>

definition sign_and_send :: "tx_format option \<Rightarrow> exec_env \<Rightarrow> run" where
  "sign_and_send tx env =
     (case tx of
        None \<Rightarrow> ([], Inl NoInput)
      | Some fmt \<Rightarrow>
          if fmt \<noteq> Versioned then ([], Inl DecodeFailed)
          else
            (case send_reply env of
               Throws \<Rightarrow> ([Sign, Broadcast False 3], Inl SendFailed)
             | Replies sig \<Rightarrow>
                 (case confirm_reply env of
                    BlockheightExceeded \<Rightarrow>
                      ([Sign, Broadcast False 3, Confirm], Inl ConfirmExpired)
                  | ConfirmErr \<Rightarrow>
                      ([Sign, Broadcast False 3, Confirm], Inl TransactionFailed)
                  | ConfirmOk \<Rightarrow>
                      ([Sign, Broadcast False 3, Confirm],
                       Inr \<lparr> signature = sig, solReceived = Fin 0, success = True \<rparr>))))"

text \<open>Counting requests of one kind in a run.\<close>

fun is_broadcast :: "action \<Rightarrow> bool" where
  "is_broadcast (Broadcast _ _) = True"
| "is_broadcast (BroadcastNoLimit _) = True"
| "is_broadcast _ = False"

definition quotes_requested :: "run \<Rightarrow> nat" where
  "quotes_requested r = length (filter (\<lambda>a. a = GetQuote) (fst r))"

definition broadcasts :: "run \<Rightarrow> nat" where
  "broadcasts r = length (filter is_broadcast (fst r))"

text \<open>Whether every broadcast of a trace comes after a simulation of the transaction.\<close>

fun simulated_before_broadcast :: "action list \<Rightarrow> bool \<Rightarrow> bool" where
  "simulated_before_broadcast [] seen = True"
| "simulated_before_broadcast (Simulate # as) seen = simulated_before_broadcast as True"
| "simulated_before_broadcast (Broadcast _ _ # as) seen =
     (seen \<and> simulated_before_broadcast as seen)"
| "simulated_before_broadcast (BroadcastNoLimit _ # as) seen =
     (seen \<and> simulated_before_broadcast as seen)"
| "simulated_before_broadcast (_ # as) seen = simulated_before_broadcast as seen"

section \<open>Sample inputs\<close>

definition sample_mint :: string where
  "sample_mint = ''4gfNpwo8LQtcgGrNmgWhuwfFhttgZ8Qb6QXN4Yz8BAGS''"

text \<open>
  A token on which every check of both checklists passes without a warning. Its pool was
  created on 25 January 2026 at 12:00 UTC.
\<close>

definition calm_token :: TokenData where
  "calm_token =
     \<lparr> symbol = ''CALM'', tname = ''Calm'', priceUsd = ''0.001'',
       priceChange = \<lparr> h1 = Fin 10, h6 = Fin 20, h24 = Fin 50, m5 = Fin 1 \<rparr>,
       volume = \<lparr> h1 = Fin 9000, h6 = Fin 50000, h24 = Fin 200000, m5 = Fin 800 \<rparr>,
       liquidity = None,
       mcap = Fin 100000,
       pairCreatedAt = Fin 1769342400000,
       dexId = ''bags'',
       txns = \<lparr> h1 = \<lparr> buys = 30, sells = 20 \<rparr>, h6 = \<lparr> buys = 80, sells = 60 \<rparr>,
                h24 = \<lparr> buys = 150, sells = 100 \<rparr>, m5 = \<lparr> buys = 3, sells = 2 \<rparr> \<rparr> \<rparr>"

text \<open>The same token with no sale in any window.\<close>

definition quiet_token :: TokenData where
  "quiet_token =
     calm_token \<lparr> txns :=
       \<lparr> h1 = \<lparr> buys = 2, sells = 0 \<rparr>, h6 = \<lparr> buys = 5, sells = 0 \<rparr>,
         h24 = \<lparr> buys = 7, sells = 0 \<rparr>, m5 = \<lparr> buys = 1, sells = 0 \<rparr> \<rparr> \<rparr>"

definition quiet_pair :: DexPair where
  "quiet_pair =
     \<lparr> pair_liquidity_usd = None, pair_priceUsd = Some (Fin (1 / 1000)),
       pair_volume_h24 = Some (Fin 200000), pair_marketCap = Some (Fin 100000),
       pair_fdv = None, pair_buys_h24 = Some 7, pair_sells_h24 = None \<rparr>"

text \<open>The same token with eleven buys for every sale over 24 hours.\<close>

definition skewed_token :: TokenData where
  "skewed_token =
     calm_token \<lparr> txns := (txns calm_token) \<lparr> h24 := \<lparr> buys = 1100, sells = 100 \<rparr> \<rparr> \<rparr>"

definition with_h1_change :: "jsnum \<Rightarrow> TokenData \<Rightarrow> TokenData" where
  "with_h1_change x token = token \<lparr> priceChange := (priceChange token) \<lparr> h1 := x \<rparr> \<rparr>"

definition with_h24_change :: "jsnum \<Rightarrow> TokenData \<Rightarrow> TokenData" where
  "with_h24_change x token = token \<lparr> priceChange := (priceChange token) \<lparr> h24 := x \<rparr> \<rparr>"

definition known_dev :: RawCreator where
  "known_dev =
     \<lparr> raw_twitterUsername = Some ''dev'', raw_twitterPfpUrl = None,
       raw_twitterDisplayName = None, raw_githubUsername = None,
       raw_feeBps = None, raw_royaltyBps = Some (Fin 100),
       raw_walletAddress = Some ''W1'' \<rparr>"

definition verified_env :: verify_env where
  "verified_env =
     \<lparr> sdk = (\<lambda>_. SdkSettled (Fulfilled (Some [known_dev])) (Fulfilled (Some (Fin 2000000000)))),
       creators_api = (\<lambda>_. ApiThrows) \<rparr>"

definition anonymous_env :: verify_env where
  "anonymous_env =
     \<lparr> sdk = (\<lambda>_. SdkSettled (Fulfilled (Some [])) Rejected),
       creators_api = (\<lambda>_. ApiThrows) \<rparr>"

definition down_env :: verify_env where
  "down_env = \<lparr> sdk = (\<lambda>_. SdkThrows), creators_api = (\<lambda>_. ApiThrows) \<rparr>"

text \<open>
  The hour of the day eight hours behind UTC at an instant given in milliseconds since the
  epoch: the Pacific hour while Los Angeles is on standard time, as it is in January.
\<close>

definition standard_hour :: "rat \<Rightarrow> int" where
  "standard_hour ms = (\<lfloor>ms / 3600000\<rfloor> - 8) mod 24"

text \<open>
  Four instants of January 2026: the 25th at 22:00 UTC (14:00 Pacific, ten hours after
  the pool of the calm token was created), the 28th at 18:00 UTC (10:00 Pacific), the
  29th at 07:00 UTC (23:00 Pacific on the 28th) and the 29th at 23:00 UTC (15:00 Pacific).
\<close>

definition first_afternoon :: rat where "first_afternoon = 1769378400000"
definition morning :: rat where "morning = 1769623200000"
definition late_evening :: rat where "late_evening = 1769670000000"
definition next_afternoon :: rat where "next_afternoon = 1769727600000"

text \<open>
  The world at an instant: the clock shows the instant and its Pacific hour, the market
  returns the given token, the creator is verified.
\<close>

definition world_at :: "rat \<Rightarrow> TokenData \<Rightarrow> world" where
  "world_at ms token =
     \<lparr> now = Fin ms, pst_hour = standard_hour ms, market = (\<lambda>_. Some token),
       verify = verified_env \<rparr>"

definition world_of :: "TokenData \<Rightarrow> world" where
  "world_of token = world_at morning token"

definition verdict_of_v1 :: "outcome_v1 \<Rightarrow> verdict option" where
  "verdict_of_v1 r = (case r of Aborted_v1 \<Rightarrow> None | Report_v1 cs v \<Rightarrow> Some v)"

definition failed_v1 :: "outcome_v1 \<Rightarrow> string list" where
  "failed_v1 r =
     (case r of Aborted_v1 \<Rightarrow> [] | Report_v1 cs v \<Rightarrow> map name (filter (\<lambda>c. \<not> status c) cs))"

definition findings_v2 :: "outcome_v2 \<Rightarrow> (check_v2 list \<times> verdict) option" where
  "findings_v2 r = (case r of Aborted_v2 \<Rightarrow> None | Report_v2 age cs v \<Rightarrow> Some (cs, v))"

definition verdict_of_v2 :: "outcome_v2 \<Rightarrow> verdict option" where
  "verdict_of_v2 r = map_option snd (findings_v2 r)"

definition shown_age :: "outcome_v2 \<Rightarrow> jsnum option" where
  "shown_age r = (case r of Aborted_v2 \<Rightarrow> None | Report_v2 age cs v \<Rightarrow> Some age)"

text \<open>A position in a token for which the market-data service reports no liquidity.\<close>

definition curve_position :: Position where
  "curve_position =
     \<lparr> pos_symbol = ''CURVE'', pos_name = ''Curve'', pos_address = sample_mint,
       entryPrice = Fin (1 / 1000), tokens = Fin 500000, costBasis = Fin (1 / 4),
       pos_notes = None \<rparr>"

text \<open>A sell quote for the whole position with a price impact of 0.3 percent.\<close>

definition curve_quote :: SellQuote where
  "curve_quote = \<lparr> outSol = Fin (3 / 10), priceImpact = Fin (3 / 10) \<rparr>"

definition curve_dex :: "string \<Rightarrow> dex_reply" where
  "curve_dex address = DexReturns [quiet_pair]"

text \<open>Answers with which a sell goes through; the quote moves the price by 50 percent.\<close>

definition costly_quote :: Quote where
  "costly_quote =
     \<lparr> outAmount = Fin 800000000, minOutAmount = Fin 792000000,
       priceImpactPct = Fin 50, has_routePlan = True \<rparr>"

definition smooth_env :: "Quote \<Rightarrow> exec_env" where
  "smooth_env q =
     \<lparr> quote_reply = Replies \<lparr> ok = True, payload = q \<rparr>,
       swap_reply = Replies \<lparr> ok = True, payload = Versioned \<rparr>,
       simulate_reply = SimulateOk,
       send_reply = Replies ''5sig'',
       confirm_reply = ConfirmOk \<rparr>"

text \<open>The calm token ten hours after its pool was created.\<close>

definition young_world :: world where
  "young_world = world_at first_afternoon calm_token"

text \<open>The same answers with a quote that moves the price by 0.3 percent.\<close>

definition fair_quote :: Quote where
  "fair_quote = costly_quote \<lparr> priceImpactPct := Fin (3 / 10) \<rparr>"

text \<open>The validity window of the transaction lapses before it is confirmed.\<close>

definition expired_env :: exec_env where
  "expired_env = (smooth_env fair_quote) \<lparr> confirm_reply := BlockheightExceeded \<rparr>"

text \<open>The calm world at eleven in the evening, Pacific time, and on the next afternoon.\<close>

definition night_world :: world where
  "night_world = world_at late_evening calm_token"

definition later_world :: world where
  "later_world = world_at next_afternoon calm_token"


section \<open>Auxiliary facts\<close>

lemma guarded_ratio:
  "(if js_gt (num s) (Fin 0) then js_div (num b) (num s) else num b) =
     (if s = 0 then Fin (of_nat b) else Fin (of_nat b / of_nat s))"
  by (simp add: js_gt_def num_def)

lemma buyRatio_eq:
  "buyRatio t =
     (if sells (h24 (txns t)) = 0 then Fin (of_nat (buys (h24 (txns t))))
      else Fin (of_nat (buys (h24 (txns t))) / of_nat (sells (h24 (txns t)))))"
  by (simp only: buyRatio_def guarded_ratio)

lemma h24Ratio_eq:
  "h24Ratio t =
     (if sells (h24 (txns t)) = 0 then Fin (of_nat (buys (h24 (txns t))))
      else Fin (of_nat (buys (h24 (txns t))) / of_nat (sells (h24 (txns t)))))"
  by (simp only: h24Ratio_def guarded_ratio)

lemma h1Ratio_eq:
  "h1Ratio t =
     (if sells (h1 (txns t)) = 0 then Fin (of_nat (buys (h1 (txns t))))
      else Fin (of_nat (buys (h1 (txns t))) / of_nat (sells (h1 (txns t)))))"
  by (simp only: h1Ratio_def guarded_ratio)

lemma m5Ratio_eq:
  "m5Ratio tx =
     (if sells (m5 tx) = 0 then Fin (of_nat (buys (m5 tx)))
      else Fin (of_nat (buys (m5 tx)) / of_nat (sells (m5 tx))))"
  by (simp only: m5Ratio_def Let_def guarded_ratio)

lemma scanner_buyRatio_eq:
  "m_buyRatio (analyzeToken p) =
     (if count_or0 (pair_sells_h24 p) = 0 then Fin (of_nat (count_or0 (pair_buys_h24 p)))
      else Fin (of_nat (count_or0 (pair_buys_h24 p)) / of_nat (count_or0 (pair_sells_h24 p))))"
  by (simp add: analyzeToken_def Let_def guarded_ratio)

text \<open>The two summary loops count what their accumulators say.\<close>

lemma tally_v2_counts:
  "tally_v2 cs (a, b) =
     (a + length (filter (\<lambda>c. \<not> status c \<and> critical c) cs),
      b + length (filter (\<lambda>c. \<not> status c \<and> \<not> critical c) cs))"
  by (induction cs arbitrary: a b) auto

lemma tally_v1_counts:
  "tally_v1 cs (a, b) =
     (a + length (filter (\<lambda>c. \<not> status c \<and> \<not> includes_mark (message c) WarnMark) cs),
      b + length (filter (\<lambda>c. includes_mark (message c) WarnMark) cs))"
  by (induction cs arbitrary: a b) auto

lemma verdict_v2_block:
  "(verdict_v2 cs = BLOCK) = (\<exists>c\<in>set cs. \<not> status c \<and> critical c)"
  by (auto simp add: verdict_v2_def tally_v2_counts filter_empty_conv)

lemma verdict_v2_warn:
  "(verdict_v2 cs = WARN) =
     (\<not> (\<exists>c\<in>set cs. \<not> status c \<and> critical c) \<and> (\<exists>c\<in>set cs. \<not> status c \<and> \<not> critical c))"
  by (auto simp add: verdict_v2_def tally_v2_counts filter_empty_conv)

lemma verdict_v2_allow:
  "(verdict_v2 cs = ALLOW) = (\<forall>c\<in>set cs. status c)"
  by (auto simp add: verdict_v2_def tally_v2_counts filter_empty_conv)

lemma verdict_v1_block:
  "(verdict_v1 cs = BLOCK) = (\<exists>c\<in>set cs. \<not> status c \<and> \<not> includes_mark (message c) WarnMark)"
  by (auto simp add: verdict_v1_def tally_v1_counts filter_empty_conv)

lemma verdict_v1_warn:
  "(verdict_v1 cs = WARN) =
     (\<not> (\<exists>c\<in>set cs. \<not> status c \<and> \<not> includes_mark (message c) WarnMark)
      \<and> (\<exists>c\<in>set cs. includes_mark (message c) WarnMark))"
  by (auto simp add: verdict_v1_def tally_v1_counts filter_empty_conv)

lemma verdict_v1_allow:
  "(verdict_v1 cs = ALLOW) = (\<forall>c\<in>set cs. status c \<and> \<not> includes_mark (message c) WarnMark)"
  by (auto simp add: verdict_v1_def tally_v1_counts filter_empty_conv)

text \<open>Evaluating the checks of a concrete run.\<close>

lemmas v1_eval =
  verdict_of_v1_def failed_v1_def runChecklist_v1_def world_of_def young_world_def
  night_world_def later_world_def world_at_def standard_hour_def first_afternoon_def
  morning_def late_evening_def next_afternoon_def
  verdict_v1_def checks_v1_def check_hours_def isTradinghours_def
  check_bags_v1_def isBags_def check_age_def getPoolAgeHours_def js_sub_def
  check_volume_v1_def check_ratio_v1_def buyRatio_eq check_liquidity_estimate_def
  volMcapRatio_def check_pump_def isChasing_def chase_message_v1_def check_size_v1_def
  sizeOk_def size_message_def includes_mark_def js_ge_def js_gt_def Let_def

lemmas v2_eval =
  verdict_of_v2_def findings_v2_def shown_age_def runChecklist_v2_def world_of_def
  later_world_def world_at_def standard_hour_def morning_def next_afternoon_def
  verdict_v2_def checks_v2_def check_bags_def isBags_def check_dev_def check_h1_pump_def
  h1Pump_def chase_message_def plus_sign_def check_ratio_def ratioTrap_def ratioBearish_def
  h24Ratio_eq h1Ratio_eq check_m5_def isActiveDump_def m5Ratio_eq check_volume_def
  check_vol_mcap_def volMcapRatio_def check_size_def sizeOk_def size_message_def
  check_h24_pump_def getPoolAgeHours_def js_sub_def includes_mark_def js_ge_def js_gt_def
  Let_def

lemmas verify_eval =
  verifyDev_def verified_env_def anonymous_env_def down_env_def known_dev_def
  convert_creator_def str_or_null_def has_socials_def handle_def verified_message_def
  num_def Let_def

lemmas token_eval =
  calm_token_def quiet_token_def skewed_token_def with_h1_change_def with_h24_change_def
  sample_mint_def

section \<open>The buy/sell ratio\<close>

text \<open>
  C9. The buy/sell ratio of both checklists (24-hour, 1-hour and 5-minute windows) and of
  the scanner is always a finite number: the division is made only when the number of
  sales is above zero, and with no sale the ratio is the number of buys itself.
\<close>

theorem ratio_total:
  "is_finite (buyRatio t) \<and> is_finite (h24Ratio t) \<and> is_finite (h1Ratio t)
   \<and> is_finite (m5Ratio tx) \<and> is_finite (m_buyRatio (analyzeToken p))
   \<and> (sells (h24 (txns t)) = 0 \<longrightarrow>
        buyRatio t = num (buys (h24 (txns t))) \<and> h24Ratio t = num (buys (h24 (txns t))))
   \<and> (sells (h1 (txns t)) = 0 \<longrightarrow> h1Ratio t = num (buys (h1 (txns t))))
   \<and> (sells (m5 tx) = 0 \<longrightarrow> m5Ratio tx = num (buys (m5 tx)))
   \<and> (count_or0 (pair_sells_h24 p) = 0 \<longrightarrow>
        m_buyRatio (analyzeToken p) = num (count_or0 (pair_buys_h24 p)))"
  by (simp add: buyRatio_eq h24Ratio_eq h1Ratio_eq m5Ratio_eq scanner_buyRatio_eq num_def)

theorem ratio_total_witness:
  "sells (h24 (txns quiet_token)) = 0 \<and> sells (h1 (txns quiet_token)) = 0
   \<and> sells (m5 (txns quiet_token)) = 0 \<and> count_or0 (pair_sells_h24 quiet_pair) = 0
   \<and> buyRatio quiet_token = num 7 \<and> h24Ratio quiet_token = num 7
   \<and> h1Ratio quiet_token = num 2 \<and> m5Ratio (txns quiet_token) = num 1
   \<and> m_buyRatio (analyzeToken quiet_pair) = num 7"
  using ratio_total [of quiet_token "txns quiet_token" quiet_pair]
  by (simp add: quiet_token_def quiet_pair_def)

section \<open>Aggregation of the checks\<close>

text \<open>
  C2, as amended. In the second checklist the verdict is BLOCK exactly when a critical
  check fails, otherwise WARN exactly when a non-critical check fails, otherwise ALLOW.
  In the first checklist, which has no severity field, the verdict is BLOCK exactly when
  a check fails whose message carries no warning sign, otherwise WARN exactly when the
  message of some check carries the warning sign, whether or not that check failed,
  otherwise ALLOW.
\<close>

theorem verdict_aggregation:
  "(verdict_v2 cs = BLOCK \<longleftrightarrow> (\<exists>c\<in>set cs. \<not> status c \<and> critical c))
   \<and> (verdict_v2 cs = WARN \<longleftrightarrow>
        \<not> (\<exists>c\<in>set cs. \<not> status c \<and> critical c)
        \<and> (\<exists>c\<in>set cs. \<not> status c \<and> \<not> critical c))
   \<and> (verdict_v2 cs = ALLOW \<longleftrightarrow> (\<forall>c\<in>set cs. status c))
   \<and> (verdict_v1 ds = BLOCK \<longleftrightarrow>
        (\<exists>c\<in>set ds. \<not> status c \<and> \<not> includes_mark (message c) WarnMark))
   \<and> (verdict_v1 ds = WARN \<longleftrightarrow>
        \<not> (\<exists>c\<in>set ds. \<not> status c \<and> \<not> includes_mark (message c) WarnMark)
        \<and> (\<exists>c\<in>set ds. includes_mark (message c) WarnMark))
   \<and> (verdict_v1 ds = ALLOW \<longleftrightarrow>
        (\<forall>c\<in>set ds. status c \<and> \<not> includes_mark (message c) WarnMark))"
  by (simp only: verdict_v2_block verdict_v2_warn verdict_v2_allow
      verdict_v1_block verdict_v1_warn verdict_v1_allow simp_thms)

theorem verdict_aggregation_witness:
  "verdict_v2 (checks_v2 sample_mint (Fin 5) calm_token (verifyDev verified_env sample_mint)) = BLOCK
   \<and> (\<exists>c\<in>set (checks_v2 sample_mint (Fin 5) calm_token (verifyDev verified_env sample_mint)).
         \<not> status c \<and> critical c)
   \<and> verdict_v1 (checks_v1 14 (Fin first_afternoon) sample_mint (Fin (1 / 4)) calm_token) = WARN
   \<and> (\<exists>c\<in>set (checks_v1 14 (Fin first_afternoon) sample_mint (Fin (1 / 4)) calm_token).
         includes_mark (message c) WarnMark)"
proof -
  have "check_size (Fin 5)
          \<in> set (checks_v2 sample_mint (Fin 5) calm_token (verifyDev verified_env sample_mint))"
    by (simp add: checks_v2_def)
  moreover have "\<not> status (check_size (Fin 5)) \<and> critical (check_size (Fin 5))"
    by (simp add: check_size_def sizeOk_def js_ge_def)
  ultimately have b: "\<exists>c\<in>set (checks_v2 sample_mint (Fin 5) calm_token
      (verifyDev verified_env sample_mint)). \<not> status c \<and> critical c"
    by blast
  have w: "verdict_v1 (checks_v1 14 (Fin first_afternoon) sample_mint (Fin (1 / 4)) calm_token) = WARN"
    by (simp add: v1_eval token_eval)
  show ?thesis
    using b w verdict_aggregation
      [of "checks_v2 sample_mint (Fin 5) calm_token (verifyDev verified_env sample_mint)"
          "checks_v1 14 (Fin first_afternoon) sample_mint (Fin (1 / 4)) calm_token"]
    by blast
qed

text \<open>
  In the first checklist a run in which no check has a false status still ends with
  WARN: at 14:00 Pacific time the pool-age check of a ten-hour-old pool passes with a
  warning message, and the loop counts the message.
\<close>

theorem warn_without_failure:
  "verdict_of_v1 (runChecklist_v1 young_world sample_mint (Fin (1 / 4))) = Some WARN
   \<and> failed_v1 (runChecklist_v1 young_world sample_mint (Fin (1 / 4))) = []"
  by (simp add: v1_eval token_eval)

section \<open>Buy/sell skew and creator verification\<close>

lemma ratio_check_critical:
  "critical (check_ratio token devInfo) = (js_gt (h24Ratio token) (Fin 10) \<and> \<not> verified devInfo)"
  by (simp add: check_ratio_def ratioTrap_def)

lemma ratio_check_status:
  "status (check_ratio token devInfo) = (\<not> ratioTrap token devInfo \<and> \<not> ratioBearish token)"
  by (simp add: check_ratio_def)

lemma ratio_check_member: "check_ratio token devInfo \<in> set (checks_v2 mint amt token devInfo)"
  by (simp add: checks_v2_def)

lemma v2_trap_blocks:
  assumes "js_gt (h24Ratio token) (Fin 10)" and "\<not> verified devInfo"
  shows "verdict_v2 (checks_v2 mint amt token devInfo) = BLOCK"
proof -
  have "\<not> status (check_ratio token devInfo) \<and> critical (check_ratio token devInfo)"
    using assms by (simp add: ratio_check_critical ratio_check_status ratioTrap_def)
  then show ?thesis
    unfolding verdict_v2_block using ratio_check_member by blast
qed

lemma v1_ratio_blocks:
  assumes "js_gt (buyRatio token) (Fin 10)"
  shows "verdict_v1 (checks_v1 hour t mint amt token) = BLOCK"
proof -
  have "is_finite (buyRatio token)"
    by (simp add: buyRatio_eq)
  then obtain q where q: "buyRatio token = Fin q"
    by (cases "buyRatio token") auto
  have "10 < q" using assms q by (simp add: js_gt_def)
  then have "\<not> status (check_ratio_v1 token)
        \<and> \<not> includes_mark (message (check_ratio_v1 token)) WarnMark"
    using q by (simp add: check_ratio_v1_def Let_def js_gt_def js_ge_def includes_mark_def)
  moreover have "check_ratio_v1 token \<in> set (checks_v1 hour t mint amt token)"
    by (simp add: checks_v1_def)
  ultimately show ?thesis unfolding verdict_v1_block by blast
qed

text \<open>
  C4, as amended. In the second checklist a 24-hour buy/sell ratio above 10 together with
  an unverified creator makes the ratio check a critical failure and the verdict BLOCK;
  with a verified creator the ratio check is never critical; the ratio check is critical
  exactly for that combination. The first checklist takes no creator verification: there
  a 24-hour ratio above 10 alone makes the verdict BLOCK.
\<close>

theorem skew_signal:
  "(js_gt (h24Ratio token) (Fin 10) \<and> \<not> verified devInfo \<longrightarrow>
      \<not> status (check_ratio token devInfo) \<and> critical (check_ratio token devInfo)
      \<and> verdict_v2 (checks_v2 mint amt token devInfo) = BLOCK)
   \<and> (verified devInfo \<longrightarrow> \<not> critical (check_ratio token devInfo))
   \<and> (critical (check_ratio token devInfo) \<longleftrightarrow>
        js_gt (h24Ratio token) (Fin 10) \<and> \<not> verified devInfo)
   \<and> (js_gt (buyRatio token) (Fin 10) \<longrightarrow>
        verdict_v1 (checks_v1 hour t mint amt token) = BLOCK)
   \<and> runChecklist_v1 (w \<lparr> verify := e \<rparr>) mint amt = runChecklist_v1 w mint amt"
  using v2_trap_blocks v1_ratio_blocks
  by (simp add: ratio_check_critical ratio_check_status ratioTrap_def runChecklist_v1_def
      split: option.split)



theorem skew_signal_witness:
  "js_gt (h24Ratio skewed_token) (Fin 10)
   \<and> \<not> verified (verifyDev anonymous_env sample_mint)
   \<and> verdict_v2 (checks_v2 sample_mint (Fin (1 / 4)) skewed_token
         (verifyDev anonymous_env sample_mint)) = BLOCK
   \<and> verified (verifyDev verified_env sample_mint)
   \<and> \<not> critical (check_ratio skewed_token (verifyDev verified_env sample_mint))
   \<and> js_gt (buyRatio skewed_token) (Fin 10)
   \<and> verdict_v1 (checks_v1 10 (Fin morning) sample_mint (Fin (1 / 4)) skewed_token) = BLOCK"
proof -
  have r: "js_gt (h24Ratio skewed_token) (Fin 10)" "js_gt (buyRatio skewed_token) (Fin 10)"
    by (simp_all add: h24Ratio_eq buyRatio_eq js_gt_def token_eval)
  have a: "\<not> verified (verifyDev anonymous_env sample_mint)"
    by (simp add: verify_eval)
  have v: "verified (verifyDev verified_env sample_mint)"
    by (simp add: verify_eval)
  show ?thesis
    using r a v
      skew_signal [of skewed_token "verifyDev anonymous_env sample_mint" sample_mint "Fin (1 / 4)"
        10 "Fin morning"]
      skew_signal [of skewed_token "verifyDev verified_env sample_mint"]
    by blast
qed

text \<open>
  In the first checklist the skewed token is blocked although its creator is verified:
  the ratio check is the only check that fails.
\<close>

theorem skew_alone_blocks_v1:
  "verdict_of_v1 (runChecklist_v1 (world_of skewed_token) sample_mint (Fin (1 / 4))) = Some BLOCK
   \<and> failed_v1 (runChecklist_v1 (world_of skewed_token) sample_mint (Fin (1 / 4)))
       = [''Buy/Sell Ratio'']
   \<and> verified (verifyDev (verify (world_of skewed_token)) sample_mint)"
  by (simp add: v1_eval token_eval verify_eval)

section \<open>The pump guard\<close>

lemma h1_check_member: "check_h1_pump token \<in> set (checks_v2 mint amt token devInfo)"
  by (simp add: checks_v2_def)

lemma v2_pump_blocks:
  assumes "js_gt (h1 (priceChange token)) (Fin 100)"
  shows "verdict_v2 (checks_v2 mint amt token devInfo) = BLOCK"
proof -
  have "\<not> status (check_h1_pump token) \<and> critical (check_h1_pump token)"
    using assms by (simp add: check_h1_pump_def h1Pump_def)
  then show ?thesis
    unfolding verdict_v2_block using h1_check_member by blast
qed

lemma v1_pump_blocks:
  assumes "js_gt (h24 (priceChange token)) (Fin 500)"
  shows "verdict_v1 (checks_v1 hour t mint amt token) = BLOCK"
proof -
  have "\<not> status (check_pump token) \<and> \<not> includes_mark (message (check_pump token)) WarnMark"
    using assms
    by (simp add: check_pump_def isChasing_def chase_message_v1_def includes_mark_def)
  moreover have "check_pump token \<in> set (checks_v1 hour t mint amt token)"
    by (simp add: checks_v1_def)
  ultimately show ?thesis unfolding verdict_v1_block by blast
qed

lemma v1_ignores_h1:
  "checks_v1 hour t mint amt (with_h1_change x token) = checks_v1 hour t mint amt token"
  by (simp add: with_h1_change_def checks_v1_def check_bags_v1_def isBags_def check_age_def
      check_volume_v1_def check_ratio_v1_def buyRatio_def check_liquidity_estimate_def
      volMcapRatio_def check_pump_def isChasing_def Let_def)

lemma h1_check_high:
  "js_gt (h1 (priceChange token)) (Fin 100) \<Longrightarrow>
     \<not> status (check_h1_pump token) \<and> critical (check_h1_pump token)
     \<and> message (check_h1_pump token) = chase_message (h1 (priceChange token))"
  by (simp add: check_h1_pump_def h1Pump_def)

lemma h1_check_moderate:
  "js_gt (h1 (priceChange token)) (Fin 50) \<Longrightarrow> \<not> js_gt (h1 (priceChange token)) (Fin 100) \<Longrightarrow>
     \<not> critical (check_h1_pump token)
     \<and> includes_mark (message (check_h1_pump token)) WarnMark"
  by (simp add: check_h1_pump_def h1Pump_def includes_mark_def)

lemma pump_check_high:
  "js_gt (h24 (priceChange token)) (Fin 500) \<Longrightarrow>
     message (check_pump token) = chase_message_v1 (h24 (priceChange token))"
  by (simp add: check_pump_def isChasing_def)

lemma pump_check_moderate:
  assumes "js_gt (h24 (priceChange token)) (Fin 200)"
    and "\<not> js_gt (h24 (priceChange token)) (Fin 500)"
  shows "includes_mark (message (check_pump token)) WarnMark
         \<and> verdict_v1 (checks_v1 hour t mint amt token) \<noteq> ALLOW"
proof -
  have m: "includes_mark (message (check_pump token)) WarnMark"
    using assms by (simp add: check_pump_def isChasing_def includes_mark_def)
  moreover have "check_pump token \<in> set (checks_v1 hour t mint amt token)"
    by (simp add: checks_v1_def)
  ultimately have "\<not> (\<forall>c\<in>set (checks_v1 hour t mint amt token).
      status c \<and> \<not> includes_mark (message c) WarnMark)"
    by blast
  then show ?thesis
    using m by (simp add: verdict_v1_allow)
qed

text \<open>
  C5, as amended. In the second checklist a one-hour price change above 100 makes the
  verdict BLOCK, with the pump check failing critically and giving the reason not to
  chase pumps; with a one-hour change above 50 and not above 100 the pump check is not
  critical and its reason carries the warning sign. The first checklist reads the
  24-hour change instead: above 500 the verdict is BLOCK with the same reason; above 200
  and not above 500 the reason of the pump check carries the warning sign and the verdict
  is never ALLOW; the one-hour change has no influence on its checks.
\<close>

theorem pump_guard:
  "(js_gt (h1 (priceChange token)) (Fin 100) \<longrightarrow>
      verdict_v2 (checks_v2 mint amt token devInfo) = BLOCK
      \<and> \<not> status (check_h1_pump token) \<and> critical (check_h1_pump token)
      \<and> message (check_h1_pump token) = chase_message (h1 (priceChange token)))
   \<and> (js_gt (h1 (priceChange token)) (Fin 50) \<and> \<not> js_gt (h1 (priceChange token)) (Fin 100) \<longrightarrow>
        \<not> critical (check_h1_pump token)
        \<and> includes_mark (message (check_h1_pump token)) WarnMark)
   \<and> check_h1_pump token \<in> set (checks_v2 mint amt token devInfo)
   \<and> (js_gt (h24 (priceChange token)) (Fin 500) \<longrightarrow>
        verdict_v1 (checks_v1 hour t mint amt token) = BLOCK
        \<and> message (check_pump token) = chase_message_v1 (h24 (priceChange token)))
   \<and> (js_gt (h24 (priceChange token)) (Fin 200) \<and> \<not> js_gt (h24 (priceChange token)) (Fin 500) \<longrightarrow>
        includes_mark (message (check_pump token)) WarnMark
        \<and> verdict_v1 (checks_v1 hour t mint amt token) \<noteq> ALLOW)
   \<and> checks_v1 hour t mint amt (with_h1_change x token) = checks_v1 hour t mint amt token"
  using v2_pump_blocks [of token mint amt devInfo] v1_pump_blocks [of token hour t mint amt]
    h1_check_member [of token mint amt devInfo] v1_ignores_h1 [of hour t mint amt x token]
    h1_check_high [of token] h1_check_moderate [of token] pump_check_high [of token]
    pump_check_moderate [of token hour t mint amt]
  by blast

theorem pump_guard_witness:
  "js_gt (h1 (priceChange (with_h1_change (Fin 150) calm_token))) (Fin 100)
   \<and> verdict_v2 (checks_v2 sample_mint (Fin (1 / 2)) (with_h1_change (Fin 150) calm_token)
         (verifyDev anonymous_env sample_mint)) = BLOCK
   \<and> message (check_h1_pump (with_h1_change (Fin 150) calm_token)) = chase_message (Fin 150)
   \<and> js_gt (h1 (priceChange (with_h1_change (Fin 60) calm_token))) (Fin 50)
   \<and> \<not> js_gt (h1 (priceChange (with_h1_change (Fin 60) calm_token))) (Fin 100)
   \<and> \<not> critical (check_h1_pump (with_h1_change (Fin 60) calm_token))
   \<and> includes_mark (message (check_h1_pump (with_h1_change (Fin 60) calm_token))) WarnMark
   \<and> js_gt (h24 (priceChange (with_h24_change (Fin 600) calm_token))) (Fin 500)
   \<and> verdict_v1 (checks_v1 10 (Fin morning) sample_mint (Fin (1 / 2))
         (with_h24_change (Fin 600) calm_token)) = BLOCK
   \<and> js_gt (h24 (priceChange (with_h24_change (Fin 300) calm_token))) (Fin 200)
   \<and> \<not> js_gt (h24 (priceChange (with_h24_change (Fin 300) calm_token))) (Fin 500)
   \<and> verdict_v1 (checks_v1 10 (Fin morning) sample_mint (Fin (1 / 2))
         (with_h24_change (Fin 300) calm_token)) \<noteq> ALLOW"
  using pump_guard [of "with_h1_change (Fin 150) calm_token" sample_mint "Fin (1 / 2)"
      "verifyDev anonymous_env sample_mint"]
    pump_guard [of "with_h1_change (Fin 60) calm_token"]
    pump_guard [of "with_h24_change (Fin 600) calm_token" sample_mint "Fin (1 / 2)"
      "verifyDev anonymous_env sample_mint" 10 "Fin morning"]
    pump_guard [of "with_h24_change (Fin 300) calm_token" sample_mint "Fin (1 / 2)"
      "verifyDev anonymous_env sample_mint" 10 "Fin morning"]
  by (simp add: with_h1_change_def with_h24_change_def js_gt_def calm_token_def)

text \<open>
  A one-hour change of 150 does not block in the first checklist, and a one-hour change
  of 60 leaves the verdict of the second checklist at ALLOW.
\<close>

theorem pump_counterexample:
  "verdict_of_v1 (runChecklist_v1 (world_of (with_h1_change (Fin 150) calm_token))
       sample_mint (Fin (1 / 2))) = Some ALLOW
   \<and> verdict_of_v2 (runChecklist_v2 (world_of (with_h1_change (Fin 60) calm_token))
       sample_mint (Fin (1 / 2))) = Some ALLOW"
  by (simp add: v1_eval v2_eval token_eval verify_eval)


section \<open>The verdict and the clock\<close>

lemma verdict_v1_by_outcomes:
  assumes "map (\<lambda>c. (status c, includes_mark (message c) WarnMark)) cs
           = map (\<lambda>c. (status c, includes_mark (message c) WarnMark)) ds"
  shows "verdict_v1 cs = verdict_v1 ds"
proof -
  let ?key = "\<lambda>c::check. (status c, includes_mark (message c) WarnMark)"
  have fail: "\<And>xs. (\<exists>c\<in>set xs. \<not> status c \<and> \<not> includes_mark (message c) WarnMark)
      = (\<exists>k\<in>set (map ?key xs). \<not> fst k \<and> \<not> snd k)"
    by auto
  have warn: "\<And>xs. (\<exists>c\<in>set xs. includes_mark (message c) WarnMark)
      = (\<exists>k\<in>set (map ?key xs). snd k)"
    by auto
  have b: "(verdict_v1 cs = BLOCK) = (verdict_v1 ds = BLOCK)"
    unfolding verdict_v1_block fail using assms by simp
  have w: "(verdict_v1 cs = WARN) = (verdict_v1 ds = WARN)"
    unfolding verdict_v1_warn fail warn using assms by simp
  show ?thesis
    using b w by (cases "verdict_v1 cs"; cases "verdict_v1 ds") simp_all
qed

lemma checks_v1_outcomes:
  assumes "(h < 9 \<or> 22 \<le> h) = (h' < 9 \<or> 22 \<le> h')"
    and "js_ge (getPoolAgeHours (pairCreatedAt token) t) (Fin 6)
         = js_ge (getPoolAgeHours (pairCreatedAt token) t') (Fin 6)"
    and "js_ge (getPoolAgeHours (pairCreatedAt token) t) (Fin 24)
         = js_ge (getPoolAgeHours (pairCreatedAt token) t') (Fin 24)"
  shows "verdict_v1 (checks_v1 h t mint amt token) = verdict_v1 (checks_v1 h' t' mint amt token)"
proof (rule verdict_v1_by_outcomes)
  have hours: "(status (check_hours h), includes_mark (message (check_hours h)) WarnMark)
      = (status (check_hours h'), includes_mark (message (check_hours h')) WarnMark)"
    using assms(1) by (simp add: check_hours_def isTradinghours_def includes_mark_def)
  have age: "\<And>a a'. js_ge a (Fin 6) = js_ge a' (Fin 6) \<Longrightarrow> js_ge a (Fin 24) = js_ge a' (Fin 24) \<Longrightarrow>
      (status (check_age mint token a), includes_mark (message (check_age mint token a)) WarnMark)
      = (status (check_age mint token a'),
         includes_mark (message (check_age mint token a')) WarnMark)"
    by (simp add: check_age_def Let_def includes_mark_def)
  show "map (\<lambda>c. (status c, includes_mark (message c) WarnMark)) (checks_v1 h t mint amt token)
      = map (\<lambda>c. (status c, includes_mark (message c) WarnMark)) (checks_v1 h' t' mint amt token)"
    using hours age [OF assms(2) assms(3)] by (simp add: checks_v1_def)
qed

text \<open>
  C6, as amended. The checks and the verdict of the second checklist do not depend on the
  clock: two runs that differ only in the time agree on them (only the printed pool age
  differs). The verdict of the first checklist depends on the time of the run, but only
  through the trading-hours check and the pool-age check: two runs on the same input give
  the same verdict whenever both fall inside or both outside the trading hours and the
  pool age lies on the same side of the 6-hour and of the 24-hour threshold.
\<close>

theorem verdict_and_clock:
  "findings_v2 (runChecklist_v2 (w \<lparr> now := t, pst_hour := h \<rparr>) mint amt)
     = findings_v2 (runChecklist_v2 w mint amt)
   \<and> (((h < 9 \<or> 22 \<le> h) \<longleftrightarrow> (pst_hour w < 9 \<or> 22 \<le> pst_hour w))
       \<and> (\<forall>token. market w mint = Some token \<longrightarrow>
             (js_ge (getPoolAgeHours (pairCreatedAt token) t) (Fin 6)
                \<longleftrightarrow> js_ge (getPoolAgeHours (pairCreatedAt token) (now w)) (Fin 6))
             \<and> (js_ge (getPoolAgeHours (pairCreatedAt token) t) (Fin 24)
                \<longleftrightarrow> js_ge (getPoolAgeHours (pairCreatedAt token) (now w)) (Fin 24))) \<longrightarrow>
        verdict_of_v1 (runChecklist_v1 (w \<lparr> now := t, pst_hour := h \<rparr>) mint amt)
          = verdict_of_v1 (runChecklist_v1 w mint amt))"
proof (intro conjI impI)
  show "findings_v2 (runChecklist_v2 (w \<lparr> now := t, pst_hour := h \<rparr>) mint amt)
     = findings_v2 (runChecklist_v2 w mint amt)"
    by (simp add: findings_v2_def runChecklist_v2_def Let_def split: option.split)
next
  assume a: "((h < 9 \<or> 22 \<le> h) \<longleftrightarrow> (pst_hour w < 9 \<or> 22 \<le> pst_hour w))
       \<and> (\<forall>token. market w mint = Some token \<longrightarrow>
             (js_ge (getPoolAgeHours (pairCreatedAt token) t) (Fin 6)
                \<longleftrightarrow> js_ge (getPoolAgeHours (pairCreatedAt token) (now w)) (Fin 6))
             \<and> (js_ge (getPoolAgeHours (pairCreatedAt token) t) (Fin 24)
                \<longleftrightarrow> js_ge (getPoolAgeHours (pairCreatedAt token) (now w)) (Fin 24)))"
  show "verdict_of_v1 (runChecklist_v1 (w \<lparr> now := t, pst_hour := h \<rparr>) mint amt)
          = verdict_of_v1 (runChecklist_v1 w mint amt)"
  proof (cases "market w mint")
    case None
    then show ?thesis by (simp add: runChecklist_v1_def)
  next
    case (Some token)
    have "verdict_v1 (checks_v1 h t mint amt token)
        = verdict_v1 (checks_v1 (pst_hour w) (now w) mint amt token)"
      using a Some by (intro checks_v1_outcomes) auto
    then show ?thesis
      using Some by (simp add: runChecklist_v1_def verdict_of_v1_def)
  qed
qed

theorem verdict_and_clock_witness:
  "findings_v2 (runChecklist_v2 later_world sample_mint (Fin (1 / 4)))
     = findings_v2 (runChecklist_v2 (world_of calm_token) sample_mint (Fin (1 / 4)))
   \<and> shown_age (runChecklist_v2 later_world sample_mint (Fin (1 / 4)))
     \<noteq> shown_age (runChecklist_v2 (world_of calm_token) sample_mint (Fin (1 / 4)))
   \<and> now later_world \<noteq> now (world_of calm_token)
   \<and> pst_hour later_world = 15 \<and> pst_hour (world_of calm_token) = 10
   \<and> verdict_of_v1 (runChecklist_v1 later_world sample_mint (Fin (1 / 4)))
      = verdict_of_v1 (runChecklist_v1 (world_of calm_token) sample_mint (Fin (1 / 4)))"
proof -
  have later: "later_world = (world_of calm_token) \<lparr> now := Fin next_afternoon, pst_hour := 15 \<rparr>"
    by (simp add: later_world_def world_of_def world_at_def standard_hour_def
        next_afternoon_def)
  have clock: "now later_world \<noteq> now (world_of calm_token)" "pst_hour later_world = 15"
    "pst_hour (world_of calm_token) = 10"
    by (simp_all add: later_world_def world_of_def world_at_def standard_hour_def
        next_afternoon_def morning_def)
  have age: "shown_age (runChecklist_v2 later_world sample_mint (Fin (1 / 4)))
     \<noteq> shown_age (runChecklist_v2 (world_of calm_token) sample_mint (Fin (1 / 4)))"
    by (simp add: shown_age_def runChecklist_v2_def later_world_def world_of_def world_at_def
        next_afternoon_def morning_def getPoolAgeHours_def js_sub_def calm_token_def Let_def)
  have hyp: "(((15::int) < 9 \<or> 22 \<le> (15::int))
        \<longleftrightarrow> (pst_hour (world_of calm_token) < 9 \<or> 22 \<le> pst_hour (world_of calm_token)))
      \<and> (\<forall>token. market (world_of calm_token) sample_mint = Some token \<longrightarrow>
             (js_ge (getPoolAgeHours (pairCreatedAt token) (Fin next_afternoon)) (Fin 6)
                \<longleftrightarrow> js_ge (getPoolAgeHours (pairCreatedAt token)
                      (now (world_of calm_token))) (Fin 6))
             \<and> (js_ge (getPoolAgeHours (pairCreatedAt token) (Fin next_afternoon)) (Fin 24)
                \<longleftrightarrow> js_ge (getPoolAgeHours (pairCreatedAt token)
                      (now (world_of calm_token))) (Fin 24)))"
    by (simp add: world_of_def world_at_def standard_hour_def next_afternoon_def morning_def
        getPoolAgeHours_def js_sub_def js_ge_def calm_token_def)
  show ?thesis
    using clock age hyp
      verdict_and_clock [where w = "world_of calm_token" and t = "Fin next_afternoon"
        and h = 15 and mint = sample_mint and amt = "Fin (1 / 4)"]
    unfolding later [symmetric]
    by blast
qed

text \<open>
  The first checklist on one and the same snapshot: ALLOW at 10:00 Pacific time, BLOCK at
  23:00 of the same day, and WARN at 14:00 three days earlier, when the pool was ten
  hours old.
\<close>

theorem verdict_changes_with_hour:
  "verdict_of_v1 (runChecklist_v1 (world_of calm_token) sample_mint (Fin (1 / 4))) = Some ALLOW
   \<and> verdict_of_v1 (runChecklist_v1 night_world sample_mint (Fin (1 / 4))) = Some BLOCK
   \<and> verdict_of_v1 (runChecklist_v1 young_world sample_mint (Fin (1 / 4))) = Some WARN
   \<and> market night_world = market (world_of calm_token)
   \<and> verify night_world = verify (world_of calm_token)
   \<and> market young_world = market (world_of calm_token)
   \<and> verify young_world = verify (world_of calm_token)"
  by (simp add: v1_eval token_eval)

section \<open>Verification outage\<close>






section \<open>Positions without a liquidity figure\<close>

text \<open>An absent liquidity figure is read as zero; the tracker follows the quote.\<close>

lemma absent_liquidity_reads_zero:
  "pair_liquidity_usd pair = None \<Longrightarrow>
     ls_status (liquidity_entry pos (fetchLiquidity (DexReturns (pair # rest)))) = STRANDED
     \<and> ls_liquidity (liquidity_entry pos (fetchLiquidity (DexReturns (pair # rest)))) = Fin 0"
  by (simp add: liquidity_entry_def getStatus_def LIQUIDITY_CRITICAL_def Let_def)

lemma tracker_follows_quote:
  "pv_sellValueSol (position_value pos (Some q)) = outSol q
   \<and> pv_priceImpact (position_value pos (Some q)) = priceImpact q
   \<and> pv_status (position_value pos (Some q)) \<noteq> QUOTE_ERROR"
  by (simp add: position_value_def Let_def)

text \<open>
  C1. The liquidity monitor reads an absent liquidity figure as zero: a position in such
  a token is classified as stranded and as impossible to exit, and is reported by
  \<open>getStrandedPositions\<close>, whatever a sell quote would give. The position value tracker
  values the same position from the sell quote alone.
\<close>

theorem absent_liquidity_stranded:
  "pair_liquidity_usd quiet_pair = None
   \<and> map ls_status (checkLiquidity curve_dex [curve_position]) = [STRANDED]
   \<and> map ls_canExit (checkLiquidity curve_dex [curve_position]) = [False]
   \<and> map ls_liquidity (checkLiquidity curve_dex [curve_position]) = [Fin 0]
   \<and> getStrandedPositions curve_dex [curve_position] = [''CURVE'']
   \<and> pv_status (position_value curve_position (Some curve_quote)) = PROFIT
   \<and> pv_sellValueSol (position_value curve_position (Some curve_quote)) = Fin (3 / 10)
   \<and> pv_priceImpact (position_value curve_position (Some curve_quote)) = Fin (3 / 10)"
  by (simp add: curve_dex_def quiet_pair_def curve_position_def curve_quote_def
      liquidity_entry_def getStatus_def LIQUIDITY_CRITICAL_def LIQUIDITY_WARNING_def
      position_value_def notes_include_def js_gt_def js_ge_def js_sub_def Let_def)

section \<open>The sell scripts: simulation, price impact, retries\<close>

lemmas exec_eval =
  executeSell_def sell_token_main_def sellTokens_def sellTokens_bags_def
  sell_creacher_main_def partial_sell_def sign_and_send_def smooth_env_def costly_quote_def
  fair_quote_def expired_env_def LAMPORTS_PER_SOL_def quotes_requested_def broadcasts_def
  js_gt_def

text \<open>No run of the three sell scripts named in the claims contains a simulation.\<close>

lemma never_simulates:
  "Simulate \<notin> set (fst (executeSell env)) \<and> Simulate \<notin> set (fst (sell_token_main env))
   \<and> Simulate \<notin> set (fst (sellTokens env))"
  by (simp add: executeSell_def sell_token_main_def sellTokens_def
      split: reply.split confirm_reply.split)

text \<open>
  \<open>executeSell\<close> and \<open>sellTokens\<close> do not read the price impact of the quote;
  \<open>main\<close> of \<open>sell-token\<close> stops on an impact above 5.
\<close>

lemma impact_not_read:
  "executeSell
     (env \<lparr> quote_reply := Replies \<lparr> ok = k, payload = q \<lparr> priceImpactPct := x \<rparr> \<rparr> \<rparr>)
     = executeSell (env \<lparr> quote_reply := Replies \<lparr> ok = k, payload = q \<rparr> \<rparr>)
   \<and> sellTokens
     (env \<lparr> quote_reply := Replies \<lparr> ok = k, payload = q \<lparr> priceImpactPct := x \<rparr> \<rparr> \<rparr>)
     = sellTokens (env \<lparr> quote_reply := Replies \<lparr> ok = k, payload = q \<rparr> \<rparr>)"
  by (simp add: executeSell_def sellTokens_def split: reply.split confirm_reply.split)

lemma sell_token_ceiling:
  "quote_reply env = Replies q \<Longrightarrow> ok q \<Longrightarrow> is_whole (outAmount (payload q)) \<Longrightarrow>
     js_gt (priceImpactPct (payload q)) (Fin 5) \<Longrightarrow>
     sell_token_main env = ([GetQuote], Inl ImpactTooHigh)"
  by (simp add: sell_token_main_def)

text \<open>
  C3. A sell that goes through: each of the three scripts signs and broadcasts, with the
  preflight simulation switched off, without having simulated the transaction.
\<close>

theorem broadcast_without_simulation:
  "fst (executeSell (smooth_env fair_quote)) = [GetQuote, BuildTx, Sign, Broadcast True 3, Confirm]
   \<and> fst (sell_token_main (smooth_env fair_quote))
       = [GetQuote, BuildTx, Sign, Broadcast True 3, Confirm]
   \<and> fst (sellTokens (smooth_env fair_quote))
       = [GetQuote, BuildTx, Sign, Broadcast True 3, Confirm]
   \<and> \<not> simulated_before_broadcast (fst (executeSell (smooth_env fair_quote))) False
   \<and> \<not> simulated_before_broadcast (fst (sell_token_main (smooth_env fair_quote))) False
   \<and> \<not> simulated_before_broadcast (fst (sellTokens (smooth_env fair_quote))) False"
  by (simp add: exec_eval)

text \<open>
  C7. A quote with a price impact of 50 percent: \<open>executeSell\<close> and \<open>sellTokens\<close> build,
  sign and broadcast; \<open>main\<close> of \<open>sell-token\<close> stops before building, but lets a quote
  with an impact of 3 percent through.
\<close>

theorem high_impact_executed:
  "js_gt (priceImpactPct costly_quote) (Fin 1)
   \<and> fst (executeSell (smooth_env costly_quote))
       = [GetQuote, BuildTx, Sign, Broadcast True 3, Confirm]
   \<and> fst (sellTokens (smooth_env costly_quote))
       = [GetQuote, BuildTx, Sign, Broadcast True 3, Confirm]
   \<and> fst (sell_token_main (smooth_env (costly_quote \<lparr> priceImpactPct := Fin 3 \<rparr>)))
       = [GetQuote, BuildTx, Sign, Broadcast True 3, Confirm]
   \<and> sell_token_main (smooth_env costly_quote) = ([GetQuote], Inl ImpactTooHigh)"
  by (simp add: exec_eval)

lemma single_attempt_cited:
  "quotes_requested (executeSell env) = 1 \<and> broadcasts (executeSell env) \<le> 1
   \<and> quotes_requested (sell_token_main env) = 1 \<and> broadcasts (sell_token_main env) \<le> 1
   \<and> quotes_requested (sellTokens env) = 1 \<and> broadcasts (sellTokens env) \<le> 1
   \<and> (\<forall>a \<in> set (fst (executeSell env)) \<union> set (fst (sell_token_main env))
             \<union> set (fst (sellTokens env)).
         is_broadcast a \<longrightarrow> a = Broadcast True 3)"
  by (simp add: executeSell_def sell_token_main_def sellTokens_def quotes_requested_def
      broadcasts_def split: reply.split confirm_reply.split)

lemma single_attempt_bags:
  "quotes_requested (sellTokens_bags env) = 1 \<and> broadcasts (sellTokens_bags env) \<le> 1
   \<and> (\<forall>a \<in> set (fst (sellTokens_bags env)). is_broadcast a \<longrightarrow> a = Broadcast True 3)"
  by (simp add: sellTokens_bags_def quotes_requested_def broadcasts_def
      split: reply.split confirm_reply.split)

lemma single_attempt_partial:
  "quotes_requested (partial_sell env) = 1 \<and> broadcasts (partial_sell env) \<le> 1
   \<and> (\<forall>a \<in> set (fst (partial_sell env)). is_broadcast a \<longrightarrow> a = Broadcast True 3)"
  by (simp add: partial_sell_def quotes_requested_def broadcasts_def
      split: reply.split confirm_reply.split simulate_reply.split)

lemma single_attempt_creacher:
  "quotes_requested (sell_creacher_main env) = 1 \<and> broadcasts (sell_creacher_main env) \<le> 1
   \<and> (\<forall>a \<in> set (fst (sell_creacher_main env)). is_broadcast a \<longrightarrow> a = BroadcastNoLimit True)"
  by (simp add: sell_creacher_main_def quotes_requested_def broadcasts_def
      split: reply.split confirm_reply.split)

lemma single_attempt_send:
  "quotes_requested (sign_and_send tx env) = 0 \<and> broadcasts (sign_and_send tx env) \<le> 1
   \<and> (\<forall>a \<in> set (fst (sign_and_send tx env)). is_broadcast a \<longrightarrow> a = Broadcast False 3)"
  by (simp add: sign_and_send_def quotes_requested_def broadcasts_def
      split: option.split reply.split confirm_reply.split)

text \<open>
  C8, as amended. No script that broadcasts a trade retries: every run requests at most
  one quote (exactly one in the six sell scripts) and broadcasts at most once, whatever
  fails. The only retry is the resending of the same signed transaction by the RPC node:
  every broadcast allows it at most three resends, except the broadcast of
  \<open>sell-creacher-now\<close>, which passes no such bound.
\<close>

theorem single_attempt:
  "quotes_requested (executeSell env) = 1 \<and> broadcasts (executeSell env) \<le> 1
   \<and> quotes_requested (sell_token_main env) = 1 \<and> broadcasts (sell_token_main env) \<le> 1
   \<and> quotes_requested (sellTokens env) = 1 \<and> broadcasts (sellTokens env) \<le> 1
   \<and> quotes_requested (sellTokens_bags env) = 1 \<and> broadcasts (sellTokens_bags env) \<le> 1
   \<and> quotes_requested (partial_sell env) = 1 \<and> broadcasts (partial_sell env) \<le> 1
   \<and> quotes_requested (sell_creacher_main env) = 1 \<and> broadcasts (sell_creacher_main env) \<le> 1
   \<and> quotes_requested (sign_and_send tx env) = 0 \<and> broadcasts (sign_and_send tx env) \<le> 1
   \<and> (\<forall>a \<in> set (fst (executeSell env)) \<union> set (fst (sell_token_main env))
             \<union> set (fst (sellTokens env)) \<union> set (fst (sellTokens_bags env))
             \<union> set (fst (partial_sell env)).
         is_broadcast a \<longrightarrow> a = Broadcast True 3)
   \<and> (\<forall>a \<in> set (fst (sign_and_send tx env)). is_broadcast a \<longrightarrow> a = Broadcast False 3)
   \<and> (\<forall>a \<in> set (fst (sell_creacher_main env)). is_broadcast a \<longrightarrow> a = BroadcastNoLimit True)"
  using single_attempt_cited [of env] single_attempt_bags [of env]
    single_attempt_partial [of env] single_attempt_creacher [of env]
    single_attempt_send [of tx env]
  by (simp only: ball_Un) blast

theorem single_attempt_witness:
  "snd (executeSell expired_env) = Inl ConfirmExpired
   \<and> quotes_requested (executeSell expired_env) = 1
   \<and> broadcasts (executeSell expired_env) = 1
   \<and> Broadcast True 3 \<in> set (fst (executeSell expired_env))
   \<and> is_broadcast (Broadcast True 3)
   \<and> snd (sell_creacher_main expired_env) = Inl ConfirmExpired
   \<and> quotes_requested (sell_creacher_main expired_env) = 1
   \<and> broadcasts (sell_creacher_main expired_env) = 1
   \<and> BroadcastNoLimit True \<in> set (fst (sell_creacher_main expired_env))
   \<and> is_broadcast (BroadcastNoLimit True)
   \<and> snd (sign_and_send (Some Versioned) expired_env) = Inl ConfirmExpired
   \<and> quotes_requested (sign_and_send (Some Versioned) expired_env) = 0
   \<and> Broadcast False 3 \<in> set (fst (sign_and_send (Some Versioned) expired_env))
   \<and> is_broadcast (Broadcast False 3)"
  using single_attempt [of expired_env "Some Versioned"]
  by (simp add: exec_eval)

text \<open>
  When the validity window lapses before confirmation, each script ends with that error
  after its single quote and single broadcast.
\<close>

theorem expired_not_retried:
  "executeSell expired_env
     = ([GetQuote, BuildTx, Sign, Broadcast True 3, Confirm], Inl ConfirmExpired)
   \<and> sell_token_main expired_env
     = ([GetQuote, BuildTx, Sign, Broadcast True 3, Confirm], Inl ConfirmExpired)
   \<and> sellTokens expired_env
     = ([GetQuote, BuildTx, Sign, Broadcast True 3, Confirm], Inl ConfirmExpired)
   \<and> sell_creacher_main expired_env
     = ([GetQuote, BuildTx, Sign, BroadcastNoLimit True, Confirm], Inl ConfirmExpired)"
  by (simp add: exec_eval)

end
